theory Spec2Isabelle
  imports Complex_Main "HOL-Library.Log_Nat"
begin

section \<open>JavaScript numbers\<close>

text \<open>
  A JavaScript \<^verbatim>\<open>number\<close> is an IEEE 754 double. A finite double is a rational, so a
  number is modelled as a \<^typ>\<open>rat\<close>, and every arithmetic operation is the exact
  operation followed by rounding to the nearest double (53 significant bits, ties to the
  even significand). The exponent range is left unbounded: overflow, subnormals, NaN and
  the sign of zero are not modelled; the quantities of this program stay far below
  \<open>2 ^ 1023\<close> and are either zero or at least \<open>1 / 4\<close> in magnitude.
\<close>

type_synonym number = rat

definition pow2 :: "int \<Rightarrow> rat" where
  "pow2 e = (if 0 \<le> e then 2 ^ nat e else 1 / 2 ^ nat (- e))"

text \<open>The binary exponent of a non-zero rational: the \<open>e\<close> with \<open>2 ^ e \<le> \<bar>x\<bar> < 2 ^ (e + 1)\<close>.\<close>

definition exponent :: "rat \<Rightarrow> int" where
  "exponent x = (let a = \<bar>x\<bar> in
     if 1 \<le> a then bitlen \<lfloor>a\<rfloor> - 1 else - bitlen (\<lceil>1 / a\<rceil> - 1))"

definition round_ties_even :: "rat \<Rightarrow> int" where
  "round_ties_even z = (let f = \<lfloor>z\<rfloor>; r = z - of_int f in
     if r < 1 / 2 then f else if 1 / 2 < r then f + 1 else if even f then f else f + 1)"

text \<open>\<open>fl x\<close> is the double nearest to \<open>x\<close>; a decimal literal of the source denotes \<open>fl\<close> of its value.\<close>

definition fl :: "rat \<Rightarrow> number" where
  "fl x = (if x = 0 then 0
     else let q = pow2 (exponent x - 52) in of_int (round_ties_even (x / q)) * q)"

definition js_add :: "number \<Rightarrow> number \<Rightarrow> number" where
  "js_add a b = fl (a + b)"

definition js_sub :: "number \<Rightarrow> number \<Rightarrow> number" where
  "js_sub a b = fl (a - b)"

definition js_mul :: "number \<Rightarrow> number \<Rightarrow> number" where
  "js_mul a b = fl (a * b)"

text \<open>
  \<^verbatim>\<open>Math.round\<close> returns the integer nearest to its argument and, of two equally near
  integers, the one towards plus infinity. That is the exact floor of \<open>x + 1 / 2\<close>.
\<close>

definition Math_round :: "number \<Rightarrow> number" where
  "Math_round x = of_int \<lfloor>x + 1 / 2\<rfloor>"


section \<open>Profiles and the energy computation\<close>

text \<open>
  The onboarding page and the profile page each declare a type \<^verbatim>\<open>UserProfile\<close>. The fields
  they share are collected in \<open>biometrics\<close>. Both forms set \<^verbatim>\<open>age\<close>, \<^verbatim>\<open>height\<close> and
  \<^verbatim>\<open>weight\<close> with \<^verbatim>\<open>parseInt(e.target.value)\<close>, so these three numbers are integers.
\<close>

datatype gender = Male | Female | Other

datatype activity_level = Sedentary | Light | Moderate | Active | Very_active

datatype goal = Lose | Maintain | Gain

type_synonym uuid = string

record biometrics =
  name :: string
  gender :: gender
  age :: int
  height :: int
  weight :: int
  goal :: goal

text \<open>The state \<^verbatim>\<open>profile\<close> of the onboarding page.\<close>

record onboarding_profile = biometrics +
  activityLevel :: activity_level

text \<open>The columns \<^verbatim>\<open>bmr\<close>, \<^verbatim>\<open>tdee\<close> and \<^verbatim>\<open>target_calories\<close> of a profile.\<close>

record energy_targets =
  bmr :: number
  tdee :: number
  target_calories :: number

text \<open>
  The state \<^verbatim>\<open>profile\<close> of the profile page, as read from the table \<^verbatim>\<open>profiles\<close>
  (\<open>profile_id\<close> is the column \<^verbatim>\<open>id\<close>).
\<close>

record user_profile = biometrics +
  profile_id :: uuid
  activity_level :: activity_level
  energy :: energy_targets

text \<open>
  The object handed to \<^verbatim>\<open>upsert\<close> by the onboarding page:
  \<^verbatim>\<open>{ id: user.id, ...profile, bmr, tdee, target_calories, updated_at }\<close>. The spread
  form state keeps its own property names, \<^verbatim>\<open>activityLevel\<close> among them.
\<close>

record profiles_upsert =
  upsert_id :: uuid
  upsert_profile :: onboarding_profile
  upsert_energy :: energy_targets
  upsert_updated_at :: string

text \<open>
  The object handed to \<^verbatim>\<open>update\<close> by the profile page,
  \<^verbatim>\<open>{ ...profile, bmr, tdee, target_calories, updated_at }\<close>, in which the three
  computed properties replace those spread from \<^verbatim>\<open>profile\<close>, and the row it is
  applied to (\<^verbatim>\<open>.eq('id', profile.id)\<close>).
\<close>

record profiles_update =
  update_profile :: user_profile
  update_updated_at :: string
  update_where_id :: uuid

definition activityMultipliers :: "activity_level \<Rightarrow> number" where
  "activityMultipliers a = (case a of
     Sedentary \<Rightarrow> fl (12 / 10)
   | Light \<Rightarrow> fl (1375 / 1000)
   | Moderate \<Rightarrow> fl (155 / 100)
   | Active \<Rightarrow> fl (1725 / 1000)
   | Very_active \<Rightarrow> fl (19 / 10))"

subsection \<open>Onboarding page\<close>

definition calculateBMR_onboarding :: "onboarding_profile \<Rightarrow> number" where
  "calculateBMR_onboarding profile =
     (let s = (if gender profile = Male then 5 else - 161) in
      Math_round
        (js_add
          (js_sub
            (js_add (js_mul 10 (of_int (weight profile)))
                    (js_mul (fl (625 / 100)) (of_int (height profile))))
            (js_mul 5 (of_int (age profile))))
          s))"

definition calculateTDEE_onboarding :: "onboarding_profile \<Rightarrow> number \<Rightarrow> number" where
  "calculateTDEE_onboarding profile b =
     Math_round (js_mul b (activityMultipliers (activityLevel profile)))"

text \<open>
  \<^verbatim>\<open>handleSubmit\<close> of the onboarding page, up to the write it issues: \<open>Inl\<close> is the
  error thrown before any write, \<open>Inr\<close> the object passed to \<^verbatim>\<open>upsert\<close>. The arguments
  are the signed-in user's id (if any), the current time as an ISO string and the form state.
\<close>

definition handleSubmit_onboarding ::
  "uuid option \<Rightarrow> string \<Rightarrow> onboarding_profile \<Rightarrow> string + profiles_upsert" where
  "handleSubmit_onboarding user now profile =
     (case user of
        None \<Rightarrow> Inl ''No user found''
      | Some user_id \<Rightarrow>
          (let b = calculateBMR_onboarding profile;
               t = calculateTDEE_onboarding profile b
           in Inr \<lparr>upsert_id = user_id,
                   upsert_profile = profile,
                   upsert_energy = \<lparr>bmr = b, tdee = t,
                     target_calories =
                       js_add t (if goal profile = Lose then - 500
                                 else if goal profile = Gain then 500 else 0)\<rparr>,
                   upsert_updated_at = now\<rparr>))"

subsection \<open>Profile page\<close>

definition calculateBMR_profile :: "user_profile \<Rightarrow> number" where
  "calculateBMR_profile profile =
     (let s = (if gender profile = Male then 5 else - 161) in
      Math_round
        (js_add
          (js_sub
            (js_add (js_mul 10 (of_int (weight profile)))
                    (js_mul (fl (625 / 100)) (of_int (height profile))))
            (js_mul 5 (of_int (age profile))))
          s))"

definition calculateTDEE_profile :: "number \<Rightarrow> activity_level \<Rightarrow> number" where
  "calculateTDEE_profile b activityLevel' =
     Math_round (js_mul b (activityMultipliers activityLevel'))"

definition handleSubmit_profile ::
  "string \<Rightarrow> user_profile option \<Rightarrow> string + profiles_update" where
  "handleSubmit_profile now profile_state =
     (case profile_state of
        None \<Rightarrow> Inl ''No profile data''
      | Some profile \<Rightarrow>
          (let b = calculateBMR_profile profile;
               t = calculateTDEE_profile b (activity_level profile);
               targetCalories =
                 js_add t (if goal profile = Lose then - 500
                           else if goal profile = Gain then 500 else 0)
           in Inr \<lparr>update_profile =
                     profile\<lparr>energy := \<lparr>bmr = b, tdee = t, target_calories = targetCalories\<rparr>\<rparr>,
                   update_updated_at = now,
                   update_where_id = profile_id profile\<rparr>))"

subsection \<open>The formulas as the specification writes them\<close>

text \<open>Exact rational arithmetic and \<^const>\<open>round\<close> (the floor of \<open>x + 1 / 2\<close>).\<close>

definition mifflin_constant :: "gender \<Rightarrow> rat" where
  "mifflin_constant g = (if g = Male then 5 else - 161)"

definition activityMultiplier_exact :: "activity_level \<Rightarrow> rat" where
  "activityMultiplier_exact a = (case a of
     Sedentary \<Rightarrow> 12 / 10
   | Light \<Rightarrow> 1375 / 1000
   | Moderate \<Rightarrow> 155 / 100
   | Active \<Rightarrow> 1725 / 1000
   | Very_active \<Rightarrow> 19 / 10)"

definition goal_delta :: "goal \<Rightarrow> int" where
  "goal_delta g = (case g of Lose \<Rightarrow> - 500 | Gain \<Rightarrow> 500 | Maintain \<Rightarrow> 0)"

definition spec_bmr :: "gender \<Rightarrow> int \<Rightarrow> int \<Rightarrow> int \<Rightarrow> int" where
  "spec_bmr g age' height_cm weight_kg =
     round (10 * of_int weight_kg + 625 / 100 * of_int height_cm - 5 * of_int age'
            + mifflin_constant g :: rat)"

definition spec_tdee :: "int \<Rightarrow> activity_level \<Rightarrow> int" where
  "spec_tdee b a = round (of_int b * activityMultiplier_exact a)"

definition valid_biometrics :: "int \<Rightarrow> int \<Rightarrow> int \<Rightarrow> bool" where
  "valid_biometrics age' height_cm weight_kg =
     (15 \<le> age' \<and> age' \<le> 100 \<and> 120 \<le> height_cm \<and> height_cm \<le> 250
      \<and> 30 \<le> weight_kg \<and> weight_kg \<le> 300)"


section \<open>Session gate (middleware)\<close>

text \<open>
  The middleware answers with \<^verbatim>\<open>NextResponse.next()\<close> or with a redirect to a path of
  the same origin. The session is present or absent; nothing else of it is read.
\<close>

datatype gate_response = Next | Redirect string

definition startsWith :: "string \<Rightarrow> string \<Rightarrow> bool" where
  "startsWith s p = (take (length p) s = p)"

definition middleware :: "'session option \<Rightarrow> string \<Rightarrow> gate_response" where
  "middleware session pathname =
     (if session \<noteq> None then
        (if startsWith pathname ''/auth'' \<or> pathname = ''/'' then Redirect ''/dashboard''
         else Next)
      else
        (if startsWith pathname ''/dashboard'' \<or> startsWith pathname ''/onboarding''
         then Redirect ''/auth/login''
         else Next))"


section \<open>Meal analysis endpoint and meal logging\<close>

text \<open>
  JSON values. An object is its member list in text order; reading a property takes the
  last member of that name, as \<^verbatim>\<open>JSON.parse\<close> does.
\<close>

datatype json =
  JNull | JBool bool | JNum rat | JStr string | JArr "json list" | JObj "(string \<times> json) list"

type_synonym js_object = "(string \<times> json) list"

definition get_property :: "js_object \<Rightarrow> string \<Rightarrow> json option" where
  "get_property members k = map_of (rev members) k"

text \<open>A call that either throws or returns.\<close>

datatype 'a outcome = Throws | Returns 'a

text \<open>
  \<^verbatim>\<open>const { mealText } = await request.json()\<close>: destructuring \<^verbatim>\<open>null\<close> throws a
  TypeError; any other value yields its property \<^verbatim>\<open>mealText\<close>, which only an object can
  have (\<open>None\<close> is \<^verbatim>\<open>undefined\<close>).
\<close>

definition destructure_mealText :: "json \<Rightarrow> json option outcome" where
  "destructure_mealText v = (case v of
     JNull \<Rightarrow> Throws
   | JObj members \<Rightarrow> Returns (get_property members ''mealText'')
   | _ \<Rightarrow> Returns None)"

text \<open>The values that \<^verbatim>\<open>!v\<close> does not negate to true.\<close>

definition truthy :: "json option \<Rightarrow> bool" where
  "truthy v = (case v of
     None \<Rightarrow> False
   | Some JNull \<Rightarrow> False
   | Some (JBool b) \<Rightarrow> b
   | Some (JNum n) \<Rightarrow> n \<noteq> 0
   | Some (JStr s) \<Rightarrow> s \<noteq> []
   | Some _ \<Rightarrow> True)"

datatype response_body = Text string | Json json

record http_response =
  status :: nat
  body :: response_body

text \<open>
  What the call of the provider, \<^verbatim>\<open>openai.chat.completions.create\<close> followed by
  \<^verbatim>\<open>completion.choices[0].message.content\<close>, comes to: an exception, or the content,
  a string or \<^verbatim>\<open>null\<close>.
\<close>

datatype completion = Rejected | Content "string option"

definition error_response :: http_response where
  "error_response = \<lparr>status = 500, body = Text ''Error analyzing meal''\<rparr>"

text \<open>
  The route handler \<^verbatim>\<open>POST\<close>. The environment is explicit: \<open>JSON_parse\<close> is \<^verbatim>\<open>JSON.parse\<close>
  (\<open>None\<close> for a syntax error), \<open>estimator\<close> is the provider as a function of the meal text
  put into the prompt, \<open>session\<close> the session read from the cookies, and \<open>request_json\<close> the
  result of \<^verbatim>\<open>request.json()\<close> (\<open>None\<close> when the body is not JSON). The result is the
  response together with the list of meal texts the provider was called with.
\<close>

definition POST ::
  "(string \<Rightarrow> json option) \<Rightarrow> (json \<Rightarrow> completion) \<Rightarrow> 'session option \<Rightarrow> json option
     \<Rightarrow> http_response \<times> json list" where
  "POST JSON_parse estimator session request_json =
     (case session of
        None \<Rightarrow> (\<lparr>status = 401, body = Text ''Unauthorized''\<rparr>, [])
      | Some _ \<Rightarrow>
          (case request_json of
             None \<Rightarrow> (error_response, [])
           | Some v \<Rightarrow>
               (case destructure_mealText v of
                  Throws \<Rightarrow> (error_response, [])
                | Returns mealText \<Rightarrow>
                    if \<not> truthy mealText
                    then (\<lparr>status = 400, body = Text ''Meal text is required''\<rparr>, [])
                    else
                      (case estimator (the mealText) of
                         Rejected \<Rightarrow> (error_response, [the mealText])
                       | Content None \<Rightarrow> (error_response, [the mealText])
                       | Content (Some response) \<Rightarrow>
                           if response = [] then (error_response, [the mealText])
                           else
                             (case JSON_parse response of
                                None \<Rightarrow> (error_response, [the mealText])
                              | Some nutritionData \<Rightarrow>
                                  (\<lparr>status = 200, body = Json nutritionData\<rparr>,
                                   [the mealText]))))))"

text \<open>The decimal digits of a number, for the index keys of arrays and strings.\<close>

fun show_nat :: "nat \<Rightarrow> string" where
  "show_nat n =
     (if n < 10 then [char_of (48 + n)] else show_nat (n div 10) @ [char_of (48 + n mod 10)])"

text \<open>
  The own enumerable properties that \<^verbatim>\<open>{ ...v }\<close> copies: the members of an object, the
  indexed elements of an array, the indexed characters of a string, and nothing otherwise.
\<close>

definition object_spread :: "json \<Rightarrow> js_object" where
  "object_spread v = (case v of
     JObj members \<Rightarrow> members
   | JArr xs \<Rightarrow> map (\<lambda>i. (show_nat i, xs ! i)) [0..<length xs]
   | JStr cs \<Rightarrow> map (\<lambda>i. (show_nat i, JStr [cs ! i])) [0..<length cs]
   | _ \<Rightarrow> [])"

definition ok :: "http_response \<Rightarrow> bool" where
  "ok r = (200 \<le> status r \<and> status r \<le> 299)"

text \<open>\<^verbatim>\<open>response.json()\<close> on the client: a JSON body is read back, a text body is parsed.\<close>

definition response_json :: "(string \<Rightarrow> json option) \<Rightarrow> http_response \<Rightarrow> json outcome" where
  "response_json JSON_parse r = (case body r of
     Json v \<Rightarrow> Returns v
   | Text t \<Rightarrow> (case JSON_parse t of None \<Rightarrow> Throws | Some v \<Rightarrow> Returns v))"

text \<open>
  The outcome of \<^verbatim>\<open>handleMealSubmit\<close>: the row written to \<^verbatim>\<open>meal_entries\<close> if one was,
  the error shown, and the text left in the input.
\<close>

record meal_submit_result =
  inserted :: "js_object option"
  shown_error :: "string option"
  mealText_after :: string

definition failed_submit :: "string \<Rightarrow> meal_submit_result" where
  "failed_submit mealText =
     \<lparr>inserted = None,
      shown_error = Some ''Failed to log meal. Please try again.'',
      mealText_after = mealText\<rparr>"

text \<open>
  \<^verbatim>\<open>handleMealSubmit\<close> of the dashboard. \<open>db_accepts\<close> says whether the database takes
  the row (row-level security, constraints), \<open>fetch\<close> is the request to
  \<^verbatim>\<open>/api/analyze-meal\<close> as a function of the JSON sent (\<open>None\<close> when the request itself
  fails), \<open>user\<close> the id of the signed-in user.
\<close>

definition handleMealSubmit ::
  "(string \<Rightarrow> json option) \<Rightarrow> (js_object \<Rightarrow> bool) \<Rightarrow> (json \<Rightarrow> http_response option)
     \<Rightarrow> uuid option \<Rightarrow> string \<Rightarrow> meal_submit_result" where
  "handleMealSubmit JSON_parse db_accepts fetch user mealText =
     (case user of
        None \<Rightarrow> failed_submit mealText
      | Some user_id \<Rightarrow>
          (case fetch (JObj [(''mealText'', JStr mealText)]) of
             None \<Rightarrow> failed_submit mealText
           | Some response \<Rightarrow>
               if \<not> ok response then failed_submit mealText
               else
                 (case response_json JSON_parse response of
                    Throws \<Rightarrow> failed_submit mealText
                  | Returns nutritionData \<Rightarrow>
                      (let row = [(''user_id'', JStr user_id), (''meal_text'', JStr mealText)]
                                 @ object_spread nutritionData
                       in if db_accepts row
                          then \<lparr>inserted = Some row, shown_error = None, mealText_after = []\<rparr>
                          else failed_submit mealText))))"

text \<open>The dashboard's request served by the route handler.\<close>

definition analyze_meal ::
  "(string \<Rightarrow> json option) \<Rightarrow> (json \<Rightarrow> completion) \<Rightarrow> 'session option \<Rightarrow> json
     \<Rightarrow> http_response option" where
  "analyze_meal JSON_parse estimator session request_body =
     Some (fst (POST JSON_parse estimator session (Some request_body)))"

text \<open>The estimation fails: the provider throws, or its content is missing, empty or not JSON.\<close>

definition estimation_fails :: "(string \<Rightarrow> json option) \<Rightarrow> completion \<Rightarrow> bool" where
  "estimation_fails JSON_parse c = (case c of
     Rejected \<Rightarrow> True
   | Content None \<Rightarrow> True
   | Content (Some response) \<Rightarrow> response = [] \<or> JSON_parse response = None)"


section \<open>Database schema and the achievement trigger\<close>

text \<open>
  The tables \<^verbatim>\<open>meal_entries\<close>, \<^verbatim>\<open>weight_entries\<close> and \<^verbatim>\<open>achievements\<close>, each a list of
  rows in insertion order. A \<^verbatim>\<open>timestamp with time zone\<close> is a count of microseconds, a
  \<^verbatim>\<open>numeric\<close> an exact rational. The generated column \<^verbatim>\<open>id\<close> is never read and is left
  out. Field \<open>entry_weight\<close> is the column \<^verbatim>\<open>weight\<close> of \<^verbatim>\<open>weight_entries\<close>.
\<close>

type_synonym timestamp = int

record owned =
  user_id :: uuid

record logged = owned +
  created_at :: timestamp

record meal_entry = logged +
  meal_text :: string
  calories :: int
  protein :: rat
  carbs :: rat
  fat :: rat

record weight_entry = logged +
  entry_weight :: rat

record achievement = owned +
  title :: string
  description :: string
  icon :: string
  unlocked_at :: timestamp

record database =
  meal_entries :: "meal_entry list"
  weight_entries :: "weight_entry list"
  achievements :: "achievement list"

definition empty_database :: database where
  "empty_database = \<lparr>meal_entries = [], weight_entries = [], achievements = []\<rparr>"

text \<open>The four rows the trigger function can insert; the icons are given by their UTF-8 bytes.\<close>

definition first_meal :: "uuid \<Rightarrow> timestamp \<Rightarrow> achievement" where
  "first_meal u now = \<lparr>user_id = u, title = ''First Meal'',
     description = ''Logged your first meal!'',
     icon = [CHR 0xF0, CHR 0x9F, CHR 0x8D, CHR 0xBD, CHR 0xEF, CHR 0xB8, CHR 0x8F],
     unlocked_at = now\<rparr>"

definition ten_meals :: "uuid \<Rightarrow> timestamp \<Rightarrow> achievement" where
  "ten_meals u now = \<lparr>user_id = u, title = ''Getting Started'',
     description = ''Logged 10 meals!'',
     icon = [CHR 0xF0, CHR 0x9F, CHR 0x93, CHR 0x9D],
     unlocked_at = now\<rparr>"

definition week_streak :: "uuid \<Rightarrow> timestamp \<Rightarrow> achievement" where
  "week_streak u now = \<lparr>user_id = u, title = ''Week Warrior'',
     description = ''Logged meals for 7 days!'',
     icon = [CHR 0xF0, CHR 0x9F, CHR 0x93, CHR 0x85],
     unlocked_at = now\<rparr>"

definition weight_loss_5kg :: "uuid \<Rightarrow> timestamp \<Rightarrow> achievement" where
  "weight_loss_5kg u now = \<lparr>user_id = u, title = ''Weight Loss Champion'',
     description = ''Lost 5kg!'',
     icon = [CHR 0xE2, CHR 0xAD, CHR 0x90],
     unlocked_at = now\<rparr>"

text \<open>\<^verbatim>\<open>select count(*) from meal_entries where user_id = new.user_id\<close>\<close>

definition total_meals :: "uuid \<Rightarrow> database \<Rightarrow> nat" where
  "total_meals u db = length (filter (\<lambda>m. user_id m = u) (meal_entries db))"

text \<open>
  \<^verbatim>\<open>select count(distinct date_trunc('day', created_at)) from meal_entries where ...\<close>;
  \<open>date_trunc_day\<close> is the truncation to the day in the time zone of the session.
\<close>

definition total_days :: "(timestamp \<Rightarrow> timestamp) \<Rightarrow> uuid \<Rightarrow> database \<Rightarrow> nat" where
  "total_days date_trunc_day u db =
     length (remdups (map (\<lambda>m. date_trunc_day (created_at m))
                          (filter (\<lambda>m. user_id m = u) (meal_entries db))))"

text \<open>
  \<^verbatim>\<open>select weight ... order by created_at asc limit 1\<close> and the same with \<^verbatim>\<open>desc\<close>;
  \<open>None\<close> is SQL's null, the value of the variable when there is no row. Among rows of
  equal time, whose order SQL leaves open, the sort keeps the insertion order.
\<close>

definition first_weight :: "uuid \<Rightarrow> database \<Rightarrow> rat option" where
  "first_weight u db =
     (case sort_key created_at (filter (\<lambda>w. user_id w = u) (weight_entries db)) of
        [] \<Rightarrow> None | w # _ \<Rightarrow> Some (entry_weight w))"

definition latest_weight :: "uuid \<Rightarrow> database \<Rightarrow> rat option" where
  "latest_weight u db =
     (case rev (sort_key created_at (filter (\<lambda>w. user_id w = u) (weight_entries db))) of
        [] \<Rightarrow> None | w # _ \<Rightarrow> Some (entry_weight w))"

text \<open>The condition of the last \<^verbatim>\<open>if\<close> of the trigger function.\<close>

definition weight_loss_condition :: "rat option \<Rightarrow> rat option \<Rightarrow> bool" where
  "weight_loss_condition first_w latest_w =
     (case (first_w, latest_w) of
        (Some f, Some l) \<Rightarrow> f > l \<and> f - l \<ge> 5
      | _ \<Rightarrow> False)"

text \<open>The rows one run of \<^verbatim>\<open>check_and_award_achievements\<close> inserts, in order.\<close>

definition awarded :: "(timestamp \<Rightarrow> timestamp) \<Rightarrow> timestamp \<Rightarrow> uuid \<Rightarrow> database \<Rightarrow> achievement list" where
  "awarded date_trunc_day now u db =
     (if total_meals u db = 1 then [first_meal u now] else [])
     @ (if total_meals u db = 10 then [ten_meals u now] else [])
     @ (if total_days date_trunc_day u db = 7 then [week_streak u now] else [])
     @ (if weight_loss_condition (first_weight u db) (latest_weight u db)
        then [weight_loss_5kg u now] else [])"

text \<open>
  Row-level security. The schema enables it on all four tables. A signed-in session of the
  application runs as \<open>Authenticated\<close> with its user id as \<^verbatim>\<open>auth.uid()\<close>, a session that
  is not signed in as \<open>Anon\<close>; \<open>Service_role\<close> stands for the sessions that bypass row-level
  security, the service role and the owner of the tables.
\<close>

datatype role = Anon | Authenticated uuid | Service_role

definition auth_uid :: "role \<Rightarrow> uuid option" where
  "auth_uid r = (case r of Authenticated u \<Rightarrow> Some u | _ \<Rightarrow> None)"

definition bypasses_rls :: "role \<Rightarrow> bool" where
  "bypasses_rls r = (r = Service_role)"

text \<open>
  The policies \<^verbatim>\<open>for insert with check (auth.uid() = user_id)\<close> of \<^verbatim>\<open>meal_entries\<close> and
  \<^verbatim>\<open>weight_entries\<close>.
\<close>

definition may_insert_own :: "role \<Rightarrow> uuid \<Rightarrow> bool" where
  "may_insert_own r u = (bypasses_rls r \<or> auth_uid r = Some u)"

text \<open>
  The policies \<^verbatim>\<open>for select using (auth.uid() = user_id)\<close>: the rows a query of the session
  sees.
\<close>

definition visible :: "role \<Rightarrow> database \<Rightarrow> database" where
  "visible r db =
     (if bypasses_rls r then db
      else \<lparr>meal_entries = filter (\<lambda>m. auth_uid r = Some (user_id m)) (meal_entries db),
            weight_entries = filter (\<lambda>w. auth_uid r = Some (user_id w)) (weight_entries db),
            achievements = filter (\<lambda>a. auth_uid r = Some (user_id a)) (achievements db)\<rparr>)"

text \<open>An insertion is refused by a policy or by a check constraint.\<close>

datatype insert_error = Rls_violation | Check_violation

text \<open>
  The trigger function, run for a new row of user \<open>u\<close> at transaction time \<open>now\<close> on the
  database that already holds the row. It is not declared \<^verbatim>\<open>security definer\<close>, so it runs
  as the session that made the insertion: its queries see the visible rows, and since
  \<^verbatim>\<open>achievements\<close> has a policy for \<^verbatim>\<open>select\<close> only, its first insertion into that table
  raises an error unless the session bypasses row-level security.
\<close>

definition check_and_award_achievements ::
  "role \<Rightarrow> (timestamp \<Rightarrow> timestamp) \<Rightarrow> timestamp \<Rightarrow> uuid \<Rightarrow> database
     \<Rightarrow> insert_error + database" where
  "check_and_award_achievements r date_trunc_day now u db =
     (let rows = awarded date_trunc_day now u (visible r db) in
      if rows = [] \<or> bypasses_rls r
      then Inr (db\<lparr>achievements := achievements db @ rows\<rparr>)
      else Inl Rls_violation)"

text \<open>
  The two insertions the application makes, as statements of a session. The row takes the
  default \<^verbatim>\<open>now()\<close> as its time. The policy of the table is checked first, then the check
  constraints; then the \<^verbatim>\<open>after insert\<close> trigger of the table runs the trigger function,
  and an error it raises is the error of the statement.
\<close>

datatype event =
  Insert_meal timestamp uuid string int rat rat rat
| Insert_weight timestamp uuid rat

fun insert_row ::
  "(timestamp \<Rightarrow> timestamp) \<Rightarrow> role \<Rightarrow> event \<Rightarrow> database \<Rightarrow> insert_error + database" where
  "insert_row date_trunc_day r (Insert_meal now u mtext c p cb f) db =
     (if \<not> may_insert_own r u then Inl Rls_violation
      else if \<not> (0 \<le> c \<and> 0 \<le> p \<and> 0 \<le> cb \<and> 0 \<le> f) then Inl Check_violation
      else check_and_award_achievements r date_trunc_day now u
             (db\<lparr>meal_entries := meal_entries db @
                [\<lparr>user_id = u, created_at = now, meal_text = mtext, calories = c,
                  protein = p, carbs = cb, fat = f\<rparr>]\<rparr>))"
| "insert_row date_trunc_day r (Insert_weight now u w) db =
     (if \<not> may_insert_own r u then Inl Rls_violation
      else if \<not> (30 \<le> w \<and> w \<le> 300) then Inl Check_violation
      else check_and_award_achievements r date_trunc_day now u
             (db\<lparr>weight_entries := weight_entries db @
                [\<lparr>user_id = u, created_at = now, entry_weight = w\<rparr>]\<rparr>))"

text \<open>
  A sequence of statements, each with the role of its session, applied from left to right.
  A statement that ends in an error is rolled back and leaves the database as it was.
\<close>

fun run ::
  "(timestamp \<Rightarrow> timestamp) \<Rightarrow> (role \<times> event) list \<Rightarrow> database \<Rightarrow> database" where
  "run date_trunc_day [] db = db"
| "run date_trunc_day ((r, e) # es) db =
     run date_trunc_day es
       (case insert_row date_trunc_day r e db of Inl err \<Rightarrow> db | Inr db' \<Rightarrow> db')"

text \<open>The insertions into \<^verbatim>\<open>meal_entries\<close>.\<close>

fun is_meal_insertion :: "event \<Rightarrow> bool" where
  "is_meal_insertion (Insert_meal now u mtext c p cb f) = True"
| "is_meal_insertion (Insert_weight now u w) = False"

text \<open>Truncation to the day in UTC, one day being 86400 seconds of a million microseconds.\<close>

definition date_trunc_day_utc :: "timestamp \<Rightarrow> timestamp" where
  "date_trunc_day_utc t = t - t mod 86400000000"

text \<open>How many achievement rows of a title a user holds.\<close>

definition achievement_count :: "uuid \<Rightarrow> string \<Rightarrow> database \<Rightarrow> nat" where
  "achievement_count u t db =
     length (filter (\<lambda>a. user_id a = u \<and> title a = t) (achievements db))"


section \<open>Properties of the energy computation\<close>

subsection \<open>Rounding to a double\<close>

text \<open>
  Two checks of the model itself: \<^const>\<open>exponent\<close> is the binary exponent, and \<^const>\<open>fl\<close>
  moves its argument by at most half a unit in the last place.
\<close>

lemma bitlen_pos: "0 < m \<Longrightarrow> 1 \<le> bitlen m"
  using bitlen_eq_zero_iff [of m] bitlen_nonneg [of m] by linarith

lemma reciprocal_le: "0 < a \<Longrightarrow> 0 < p \<Longrightarrow> 1 / a \<le> p \<Longrightarrow> 1 / p \<le> (a::rat)"
  by (simp add: field_simps)

lemma reciprocal_less: "0 < a \<Longrightarrow> 0 < p \<Longrightarrow> p < 1 / a \<Longrightarrow> a < 1 / (p::rat)"
  by (simp add: field_simps)

lemma exponent_bounds:
  assumes "x \<noteq> 0"
  shows "pow2 (exponent x) \<le> \<bar>x\<bar> \<and> \<bar>x\<bar> < pow2 (exponent x + 1)"
proof (cases "1 \<le> \<bar>x\<bar>")
  case True
  define m where "m = \<lfloor>\<bar>x\<bar>\<rfloor>"
  have mpos: "0 < m" using True by (simp add: m_def)
  have e: "exponent x = bitlen m - 1" using True by (simp add: exponent_def Let_def m_def)
  have b1: "1 \<le> bitlen m" by (rule bitlen_pos [OF mpos])
  from bitlen_bounds [OF mpos]
  have lo: "2 ^ nat (bitlen m - 1) \<le> m" and hi: "m + 1 \<le> 2 ^ nat (bitlen m)" by simp_all
  have "(2 :: rat) ^ nat (bitlen m - 1) = of_int (2 ^ nat (bitlen m - 1))" by simp
  also have "\<dots> \<le> of_int m" using lo by (simp only: of_int_le_iff)
  also have "\<dots> \<le> \<bar>x\<bar>" by (simp add: m_def)
  finally have 1: "(2 :: rat) ^ nat (bitlen m - 1) \<le> \<bar>x\<bar>" .
  have "\<bar>x\<bar> < of_int (m + 1)" using floor_correct [of "\<bar>x\<bar>"] by (simp add: m_def)
  also have "\<dots> \<le> of_int (2 ^ nat (bitlen m))" using hi by (simp only: of_int_le_iff)
  also have "\<dots> = (2 :: rat) ^ nat (bitlen m)" by simp
  finally have 2: "\<bar>x\<bar> < (2 :: rat) ^ nat (bitlen m)" .
  from b1 1 2 show ?thesis by (simp add: e pow2_def)
next
  case False
  define a where "a = \<bar>x\<bar>"
  from assms False have a: "0 < a" "a < 1" by (simp_all add: a_def)
  define n where "n = \<lceil>1 / a\<rceil> - 1"
  from a have "1 < 1 / a" by simp
  then have "1 < \<lceil>1 / a\<rceil>" by (simp add: less_ceiling_iff)
  then have npos: "0 < n" by (simp add: n_def)
  have e: "exponent x = - bitlen n" using False by (simp add: exponent_def Let_def n_def a_def)
  have b1: "1 \<le> bitlen n" by (rule bitlen_pos [OF npos])
  from bitlen_bounds [OF npos]
  have lo: "2 ^ nat (bitlen n - 1) \<le> n" and hi: "n + 1 \<le> 2 ^ nat (bitlen n)" by simp_all
  have c: "of_int n < 1 / a" "1 / a \<le> of_int (n + 1)"
    using ceiling_correct [of "1 / a"] by (simp_all add: n_def)
  have "(2 :: rat) ^ nat (bitlen n - 1) = of_int (2 ^ nat (bitlen n - 1))" by simp
  also have "\<dots> \<le> of_int n" using lo by (simp only: of_int_le_iff)
  also have "\<dots> < 1 / a" by (rule c(1))
  finally have l1: "(2 :: rat) ^ nat (bitlen n - 1) < 1 / a" .
  have "1 / a \<le> of_int (n + 1)" by (rule c(2))
  also have "\<dots> \<le> of_int (2 ^ nat (bitlen n))" using hi by (simp only: of_int_le_iff)
  also have "\<dots> = (2 :: rat) ^ nat (bitlen n)" by simp
  finally have h1: "1 / a \<le> (2 :: rat) ^ nat (bitlen n)" .
  have 1: "1 / 2 ^ nat (bitlen n) \<le> a"
    by (rule reciprocal_le [OF a(1) _ h1]) simp
  have 2: "a < pow2 (1 - bitlen n)"
  proof (cases "bitlen n = 1")
    case True
    with a show ?thesis by (simp add: pow2_def)
  next
    case False
    with b1 have gt: "1 < bitlen n" by simp
    have "a < 1 / 2 ^ nat (bitlen n - 1)"
      by (rule reciprocal_less [OF a(1) _ l1]) simp
    moreover have "nat (bitlen n - 1) = nat (- (1 - bitlen n))" by simp
    ultimately have "a < 1 / 2 ^ nat (- (1 - bitlen n))" by (simp only:)
    moreover from gt have "pow2 (1 - bitlen n) = 1 / 2 ^ nat (- (1 - bitlen n))"
      by (simp add: pow2_def)
    ultimately show ?thesis by (simp only:)
  qed
  from b1 have "pow2 (- bitlen n) = 1 / 2 ^ nat (bitlen n)" by (simp add: pow2_def)
  with 1 have "pow2 (- bitlen n) \<le> a" by (simp only:)
  moreover have "- bitlen n + 1 = 1 - bitlen n" by simp
  ultimately show ?thesis using 2 by (simp only: e a_def)
qed

lemma round_ties_even_error: "\<bar>of_int (round_ties_even z) - z\<bar> \<le> 1 / 2"
proof -
  define r where "r = z - of_int \<lfloor>z\<rfloor>"
  have r: "0 \<le> r" "r < 1" using floor_correct [of z] by (simp_all add: r_def)
  have z: "z = of_int \<lfloor>z\<rfloor> + r" by (simp add: r_def)
  consider "r < 1 / 2" | "1 / 2 < r" | "r = 1 / 2" by linarith
  then show ?thesis
  proof cases
    case 1
    then have "round_ties_even z = \<lfloor>z\<rfloor>" by (simp add: round_ties_even_def Let_def r_def)
    then have "of_int (round_ties_even z) - z = - r" by (simp add: r_def)
    with r 1 show ?thesis by simp
  next
    case 2
    then have "round_ties_even z = \<lfloor>z\<rfloor> + 1" by (simp add: round_ties_even_def Let_def r_def)
    then have "of_int (round_ties_even z) - z = 1 - r" by (simp add: r_def)
    with r 2 show ?thesis by simp
  next
    case 3
    then have "round_ties_even z = \<lfloor>z\<rfloor> \<or> round_ties_even z = \<lfloor>z\<rfloor> + 1"
      by (simp add: round_ties_even_def Let_def r_def)
    then have "of_int (round_ties_even z) - z = - r \<or> of_int (round_ties_even z) - z = 1 - r"
      by (auto simp: r_def)
    with 3 show ?thesis by auto
  qed
qed

lemma pow2_pos: "0 < pow2 e"
  by (simp add: pow2_def)

lemma fl_error: "\<bar>fl x - x\<bar> \<le> pow2 (exponent x - 52) / 2"
proof (cases "x = 0")
  case True
  then show ?thesis using pow2_pos [of "exponent 0 - 52"] by (simp add: fl_def)
next
  case False
  define q where "q = pow2 (exponent x - 52)"
  have q: "0 < q" by (simp add: q_def pow2_pos)
  have "fl x - x = (of_int (round_ties_even (x / q)) - x / q) * q"
    using False q by (simp add: fl_def Let_def q_def field_simps)
  then have "\<bar>fl x - x\<bar> = \<bar>of_int (round_ties_even (x / q)) - x / q\<bar> * q"
    using q by (simp add: abs_mult)
  also have "\<dots> \<le> 1 / 2 * q"
    using round_ties_even_error [of "x / q"] q by (intro mult_right_mono) simp_all
  finally show ?thesis by (simp add: q_def)
qed

text \<open>
  Rounding never crosses a number that is itself representable at the current precision:
  a multiple of \<open>1 / 64\<close> is such a number for every \<open>x\<close> below \<open>2 ^ 47\<close> in magnitude.
\<close>

lemma round_ties_even_ge: "of_int N \<le> z \<Longrightarrow> N \<le> round_ties_even z"
proof -
  assume "of_int N \<le> z"
  then have "N \<le> \<lfloor>z\<rfloor>" by (simp add: le_floor_iff)
  then show ?thesis by (simp add: round_ties_even_def Let_def)
qed

lemma round_ties_even_le: "z \<le> of_int N \<Longrightarrow> round_ties_even z \<le> N"
proof (cases "z = of_int \<lfloor>z\<rfloor>")
  case True
  assume "z \<le> of_int N"
  then have "\<lfloor>z\<rfloor> \<le> N" by (simp add: floor_le_iff)
  moreover from True have "z - of_int \<lfloor>z\<rfloor> = 0" by simp
  ultimately show ?thesis by (simp add: round_ties_even_def Let_def)
next
  case False
  assume le: "z \<le> of_int N"
  have "of_int \<lfloor>z\<rfloor> < z" using False of_int_floor_le [of z] by linarith
  with le have "of_int \<lfloor>z\<rfloor> < (of_int N :: rat)" by linarith
  then have "\<lfloor>z\<rfloor> < N" by simp
  then show ?thesis by (simp add: round_ties_even_def Let_def)
qed

lemma exponent_less: 
  assumes "\<bar>x\<bar> < 2 ^ n" and "0 < n"
  shows "exponent x < int n"
proof (cases "1 \<le> \<bar>x\<bar>")
  case True
  define m where "m = \<lfloor>\<bar>x\<bar>\<rfloor>"
  have mpos: "0 < m" using True by (simp add: m_def)
  have "(of_int m :: rat) \<le> \<bar>x\<bar>" by (simp add: m_def)
  with assms have "(of_int m :: rat) < 2 ^ n" by linarith
  then have "(of_int m :: rat) < of_int (2 ^ n)" by simp
  then have mlt: "m < 2 ^ n" by (simp only: of_int_less_iff)
  from bitlen_bounds [OF mpos] have "2 ^ nat (bitlen m - 1) \<le> m" by simp
  with mlt have "(2::int) ^ nat (bitlen m - 1) < 2 ^ n" by linarith
  then have "nat (bitlen m - 1) < n" by simp
  then have "bitlen m - 1 < int n" by linarith
  with True show ?thesis by (simp add: exponent_def Let_def m_def)
next
  case False
  have "0 \<le> bitlen (\<lceil>1 / \<bar>x\<bar>\<rceil> - 1)" by (rule bitlen_nonneg)
  with False assms show ?thesis by (simp add: exponent_def Let_def)
qed

lemma fl_threshold:
  assumes t: "t = of_int n / 64" and x: "\<bar>x\<bar> < 2 ^ 47"
  shows "(t \<le> x \<longrightarrow> t \<le> fl x) \<and> (x \<le> t \<longrightarrow> fl x \<le> t)"
proof (cases "x = 0")
  case True
  then show ?thesis by (simp add: fl_def)
next
  case False
  define j where "j = nat (46 - exponent x)"
  have e: "exponent x < 47" using exponent_less [OF x] by simp
  then have q: "pow2 (exponent x - 52) = 1 / (64 * 2 ^ j)"
  proof -
    from e have "nat (52 - exponent x) = 6 + j" by (simp add: j_def)
    then have "(2::rat) ^ nat (52 - exponent x) = 64 * 2 ^ j" by (simp add: power_add)
    with e show ?thesis by (simp add: pow2_def)
  qed
  define N where "N = n * 2 ^ j"
  define z where "z = x * (64 * 2 ^ j)"
  have tN: "t * (64 * 2 ^ j) = of_int N" by (simp add: t N_def)
  have flx: "fl x = of_int (round_ties_even z) / (64 * 2 ^ j)"
    using False by (simp add: fl_def q z_def)
  have pos: "(0::rat) < 64 * 2 ^ j" by simp
  have tq: "t = of_int N / (64 * 2 ^ j)" using tN pos by (simp add: field_simps)
  have xz: "x = z / (64 * 2 ^ j)" using pos by (simp add: z_def)
  show ?thesis
  proof (intro conjI impI)
    assume "t \<le> x"
    then have "of_int N \<le> z" using pos unfolding tq xz by (simp add: divide_le_cancel)
    then have "N \<le> round_ties_even z" by (rule round_ties_even_ge)
    then have "(of_int N :: rat) \<le> of_int (round_ties_even z)" by simp
    then show "t \<le> fl x" using pos unfolding tq flx by (simp add: divide_le_cancel)
  next
    assume "x \<le> t"
    then have "z \<le> of_int N" using pos unfolding tq xz by (simp add: divide_le_cancel)
    then have "round_ties_even z \<le> N" by (rule round_ties_even_le)
    then have "(of_int (round_ties_even z) :: rat) \<le> of_int N" by simp
    then show "fl x \<le> t" using pos unfolding tq flx by (simp add: divide_le_cancel)
  qed
qed

lemma fl_exact:
  assumes "x = of_int n / 64" and "\<bar>x\<bar> < 2 ^ 47"
  shows "fl x = x"
  using fl_threshold [OF assms] by simp



lemma round_ties_even_nearest:
  assumes "2 * \<bar>z - of_int N\<bar> < 1"
  shows "round_ties_even z = N"
proof (cases "of_int N \<le> z")
  case True
  with assms have "z < of_int N + 1" by (simp add: abs_if split: if_splits)
  with True have f: "\<lfloor>z\<rfloor> = N" by (simp add: floor_unique)
  with True assms have "z - of_int \<lfloor>z\<rfloor> < 1 / 2" by (simp add: abs_if split: if_splits)
  with f show ?thesis by (simp add: round_ties_even_def Let_def)
next
  case False
  with assms have "of_int (N - 1) \<le> z" "z < of_int (N - 1) + 1" by simp_all
  then have f: "\<lfloor>z\<rfloor> = N - 1" by (rule floor_unique)
  with False assms have "1 / 2 < z - of_int \<lfloor>z\<rfloor>" by (simp add: abs_if split: if_splits)
  with f show ?thesis by (simp add: round_ties_even_def Let_def)
qed

lemma cancel_factor: "p = a * c \<Longrightarrow> c \<noteq> 0 \<Longrightarrow> p * (1 / c) = (a::rat)"
  by simp

lemma exponent_upper:
  assumes "1 \<le> x"
  shows "x < 2 ^ 53 * pow2 (exponent x - 52)"
proof -
  define m where "m = \<lfloor>x\<rfloor>"
  have mpos: "0 < m" using assms by (simp add: m_def)
  have e: "exponent x = bitlen m - 1" using assms by (simp add: exponent_def Let_def m_def)
  have b1: "1 \<le> bitlen m"
    using mpos bitlen_eq_zero_iff [of m] bitlen_nonneg [of m] by linarith
  from bitlen_bounds [OF mpos] have "m + 1 \<le> 2 ^ nat (bitlen m)" by simp
  then have "(of_int (m + 1) :: rat) \<le> of_int (2 ^ nat (bitlen m))" by (simp only: of_int_le_iff)
  moreover have "x < of_int (m + 1)" using floor_correct [of x] by (simp add: m_def)
  ultimately have lt: "x < 2 ^ nat (bitlen m)" by simp
  show ?thesis
  proof (cases "53 \<le> bitlen m")
    case True
    then have "nat (bitlen m) = 53 + nat (bitlen m - 53)" by simp
    then have "(2::rat) ^ nat (bitlen m) = 2 ^ 53 * 2 ^ nat (bitlen m - 53)"
      by (simp only: power_add)
    with lt True show ?thesis by (simp add: e pow2_def)
  next
    case False
    with b1 have "53 = nat (bitlen m) + nat (53 - bitlen m)" by simp
    then have "(2::rat) ^ 53 = 2 ^ nat (bitlen m) * 2 ^ nat (53 - bitlen m)"
      by (simp only: power_add)
    then have "(2::rat) ^ 53 * (1 / 2 ^ nat (53 - bitlen m)) = 2 ^ nat (bitlen m)"
      by (rule cancel_factor) simp
    moreover from False have "pow2 (exponent x - 52) = 1 / 2 ^ nat (53 - bitlen m)"
      by (simp add: e pow2_def)
    ultimately show ?thesis using lt by (simp only:)
  qed
qed

lemma fl_nearest:
  assumes t: "t = of_int n / 64" and x: "\<bar>x\<bar> < 2 ^ 47" and nz: "x \<noteq> 0"
    and near: "2 * \<bar>x - t\<bar> < pow2 (exponent x - 52)"
  shows "fl x = t"
proof -
  define j where "j = nat (46 - exponent x)"
  have e: "exponent x < 47" using exponent_less [OF x] by simp
  have q: "pow2 (exponent x - 52) = 1 / (64 * 2 ^ j)"
  proof -
    from e have "nat (52 - exponent x) = 6 + j" by (simp add: j_def)
    then have "(2::rat) ^ nat (52 - exponent x) = 64 * 2 ^ j" by (simp add: power_add)
    with e show ?thesis by (simp add: pow2_def)
  qed
  define N where "N = n * 2 ^ j"
  define z where "z = x * (64 * 2 ^ j)"
  have pos: "(0::rat) < 64 * 2 ^ j" by simp
  have tN: "t * (64 * 2 ^ j) = of_int N" by (simp add: t N_def)
  have "z - of_int N = (x - t) * (64 * 2 ^ j)" by (simp add: z_def tN [symmetric] algebra_simps)
  then have "\<bar>z - of_int N\<bar> = \<bar>x - t\<bar> * (64 * 2 ^ j)" by (simp add: abs_mult)
  moreover from near have "2 * \<bar>x - t\<bar> * (64 * 2 ^ j) < 1" using pos by (simp add: q field_simps)
  ultimately have "2 * \<bar>z - of_int N\<bar> < 1" by simp
  then have "round_ties_even z = N" by (rule round_ties_even_nearest)
  then have "fl x = of_int N / (64 * 2 ^ j)" using nz by (simp add: fl_def q z_def)
  also have "\<dots> = t" using tN pos by (simp add: field_simps)
  finally show ?thesis .
qed

text \<open>If the product lies between two dyadic thresholds around k, rounding gives k.\<close>

lemma Math_round_fl_between:
  assumes x: "\<bar>x\<bar> < 2 ^ 47"
    and lo: "of_int k - 1 / 2 \<le> x" and hi: "x \<le> of_int k + 31 / 64"
  shows "Math_round (fl x) = of_int k"
proof -
  have "of_int k - 1 / 2 = (of_int (64 * k - 32) :: rat) / 64" by simp
  from fl_threshold [OF this x] lo have l: "of_int k - 1 / 2 \<le> fl x" by simp
  have "of_int k + 31 / 64 = (of_int (64 * k + 31) :: rat) / 64" by simp
  from fl_threshold [OF this x] hi have h: "fl x \<le> of_int k + 31 / 64" by simp
  have "\<lfloor>fl x + 1 / 2\<rfloor> = k"
    by (rule floor_unique) (use l h in linarith)+
  then show ?thesis by (simp add: Math_round_def)
qed

lemma round_int_bounds:
  fixes n :: int
  assumes "k = round (of_int n / 40 :: rat)"
  shows "40 * k - 20 \<le> n \<and> n \<le> 40 * k + 19"
proof -
  have "k = \<lfloor>(of_int (n + 20) :: rat) / of_int 40\<rfloor>"
    unfolding assms round_def by (simp add: field_simps)
  also have "\<dots> = (n + 20) div 40" by (simp only: floor_divide_of_int_eq)
  finally show ?thesis by linarith
qed


subsection \<open>The five activity multipliers\<close>

text \<open>
  The doubles that the literals 1.2, 1.375, 1.55, 1.725 and 1.9 denote. Only 1.375 is
  exact; 1.55 and 1.725 lie above their decimal value, 1.2 and 1.9 below.
\<close>

lemma mult_Sedentary: "activityMultipliers Sedentary = 5404319552844595 / 4503599627370496"
  by code_simp
lemma mult_Light: "activityMultipliers Light = 11 / 8"
  by code_simp
lemma mult_Moderate: "activityMultipliers Moderate = 6980579422424269 / 4503599627370496"
  by code_simp
lemma mult_Active: "activityMultipliers Active = 3884354678607053 / 2251799813685248"
  by code_simp
lemma mult_Very_active: "activityMultipliers Very_active = 4278419646001971 / 2251799813685248"
  by code_simp

lemma round_bounds_rat:
  fixes n k :: int
  assumes "k = round (of_int n / 40 :: rat)"
  shows "40 * (of_int k :: rat) - 20 \<le> of_int n" and "(of_int n :: rat) \<le> 40 * of_int k + 19"
proof -
  from round_int_bounds [OF assms] have "40 * k - 20 \<le> n" "n \<le> 40 * k + 19" by simp_all
  then have "(of_int (40 * k - 20) :: rat) \<le> of_int n" "(of_int n :: rat) \<le> of_int (40 * k + 19)"
    by (simp_all only: of_int_le_iff)
  then show "40 * (of_int k :: rat) - 20 \<le> of_int n" and "(of_int n :: rat) \<le> 40 * of_int k + 19"
    by simp_all
qed

lemma tdee_Sedentary:
  assumes "1 \<le> b" "b < 8192"
  shows "Math_round (js_mul (of_int b) (activityMultipliers Sedentary))
         = of_int (round (of_int b * activityMultiplier_exact Sedentary))"
proof -
  define k where "k = round (of_int b * (12 / 10) :: rat)"
  have "(of_int b * (12 / 10) :: rat) = of_int (48 * b) / 40" by simp
  then have kr: "k = round (of_int (48 * b) / 40 :: rat)" by (simp only: k_def)
  from round_int_bounds [OF kr] have kb: "40 * k - 20 \<le> 48 * b" by simp
  have "40 * k - 20 \<noteq> 48 * b" by presburger
  with kb have "40 * k - 19 \<le> 48 * b" by linarith
  then have "(of_int (40 * k - 19) :: rat) \<le> of_int (48 * b)" by (simp only: of_int_le_iff)
  then have lo: "40 * (of_int k :: rat) - 19 \<le> 48 * of_int b" by simp
  from round_bounds_rat(2) [OF kr] have hi: "48 * (of_int b :: rat) \<le> 40 * of_int k + 19" by simp
  from assms have b: "(1::rat) \<le> of_int b" "(of_int b :: rat) < 8192" by simp_all
  have "Math_round (fl (of_int b * (5404319552844595 / 4503599627370496))) = of_int k"
  proof (rule Math_round_fl_between)
    show "\<bar>of_int b * (5404319552844595 / 4503599627370496 :: rat)\<bar> < 2 ^ 47"
      using b by (simp add: abs_mult)
    show "of_int k - 1 / 2 \<le> of_int b * (5404319552844595 / 4503599627370496 :: rat)"
      using lo b by linarith
    show "of_int b * (5404319552844595 / 4503599627370496 :: rat) \<le> of_int k + 31 / 64"
      using hi b by linarith
  qed
  then show ?thesis
    by (simp only: js_mul_def mult_Sedentary k_def activityMultiplier_exact_def activity_level.case)
qed

lemma tdee_Light:
  assumes "1 \<le> b" "b < 8192"
  shows "Math_round (js_mul (of_int b) (activityMultipliers Light))
         = of_int (round (of_int b * activityMultiplier_exact Light))"
proof -
  define k where "k = round (of_int b * (1375 / 1000) :: rat)"
  have "(of_int b * (1375 / 1000) :: rat) = of_int (55 * b) / 40" by simp
  then have kr: "k = round (of_int (55 * b) / 40 :: rat)" by (simp only: k_def)
  from round_bounds_rat [OF kr]
  have lo: "40 * (of_int k :: rat) - 20 \<le> 55 * of_int b"
    and hi: "55 * (of_int b :: rat) \<le> 40 * of_int k + 19" by simp_all
  from assms have b: "(1::rat) \<le> of_int b" "(of_int b :: rat) < 8192" by simp_all
  have "Math_round (fl (of_int b * (11 / 8))) = of_int k"
  proof (rule Math_round_fl_between)
    show "\<bar>of_int b * (11 / 8 :: rat)\<bar> < 2 ^ 47"
      using b by (simp add: abs_mult)
    show "of_int k - 1 / 2 \<le> of_int b * (11 / 8 :: rat)"
      using lo b by linarith
    show "of_int b * (11 / 8 :: rat) \<le> of_int k + 31 / 64"
      using hi b by linarith
  qed
  then show ?thesis
    by (simp only: js_mul_def mult_Light k_def activityMultiplier_exact_def activity_level.case)
qed

lemma tdee_Moderate:
  assumes "1 \<le> b" "b < 8192"
  shows "Math_round (js_mul (of_int b) (activityMultipliers Moderate))
         = of_int (round (of_int b * activityMultiplier_exact Moderate))"
proof -
  define k where "k = round (of_int b * (155 / 100) :: rat)"
  have "(of_int b * (155 / 100) :: rat) = of_int (62 * b) / 40" by simp
  then have kr: "k = round (of_int (62 * b) / 40 :: rat)" by (simp only: k_def)
  from round_bounds_rat [OF kr]
  have lo: "40 * (of_int k :: rat) - 20 \<le> 62 * of_int b"
    and hi: "62 * (of_int b :: rat) \<le> 40 * of_int k + 19" by simp_all
  from assms have b: "(1::rat) \<le> of_int b" "(of_int b :: rat) < 8192" by simp_all
  have "Math_round (fl (of_int b * (6980579422424269 / 4503599627370496))) = of_int k"
  proof (rule Math_round_fl_between)
    show "\<bar>of_int b * (6980579422424269 / 4503599627370496 :: rat)\<bar> < 2 ^ 47"
      using b by (simp add: abs_mult)
    show "of_int k - 1 / 2 \<le> of_int b * (6980579422424269 / 4503599627370496 :: rat)"
      using lo b by linarith
    show "of_int b * (6980579422424269 / 4503599627370496 :: rat) \<le> of_int k + 31 / 64"
      using hi b by linarith
  qed
  then show ?thesis
    by (simp only: js_mul_def mult_Moderate k_def activityMultiplier_exact_def activity_level.case)
qed

lemma tdee_Active:
  assumes "1 \<le> b" "b < 8192"
  shows "Math_round (js_mul (of_int b) (activityMultipliers Active))
         = of_int (round (of_int b * activityMultiplier_exact Active))"
proof -
  define k where "k = round (of_int b * (1725 / 1000) :: rat)"
  have "(of_int b * (1725 / 1000) :: rat) = of_int (69 * b) / 40" by simp
  then have kr: "k = round (of_int (69 * b) / 40 :: rat)" by (simp only: k_def)
  from round_bounds_rat [OF kr]
  have lo: "40 * (of_int k :: rat) - 20 \<le> 69 * of_int b"
    and hi: "69 * (of_int b :: rat) \<le> 40 * of_int k + 19" by simp_all
  from assms have b: "(1::rat) \<le> of_int b" "(of_int b :: rat) < 8192" by simp_all
  have "Math_round (fl (of_int b * (3884354678607053 / 2251799813685248))) = of_int k"
  proof (rule Math_round_fl_between)
    show "\<bar>of_int b * (3884354678607053 / 2251799813685248 :: rat)\<bar> < 2 ^ 47"
      using b by (simp add: abs_mult)
    show "of_int k - 1 / 2 \<le> of_int b * (3884354678607053 / 2251799813685248 :: rat)"
      using lo b by linarith
    show "of_int b * (3884354678607053 / 2251799813685248 :: rat) \<le> of_int k + 31 / 64"
      using hi b by linarith
  qed
  then show ?thesis
    by (simp only: js_mul_def mult_Active k_def activityMultiplier_exact_def activity_level.case)
qed

lemma very_active_tie_arith:
  fixes B K q :: rat
  assumes "40 * K - 20 = 76 * B" and "1 \<le> B"
    and "B * (4278419646001971 / 2251799813685248) < 9007199254740992 * q"
  shows "2 * ((K - 1 / 2) - B * (4278419646001971 / 2251799813685248)) < q"
proof -
  from assms(1) have K: "K = 19 / 10 * B + 1 / 2" by (simp add: field_simps)
  have "2 * ((K - 1 / 2) - B * (4278419646001971 / 2251799813685248))
        = B * (1 / 5629499534213120)"
    unfolding K by (simp add: field_simps)
  moreover have "B * (1 / 5629499534213120)
        \<le> B * (4278419646001971 / 2251799813685248) / 9007199254740992"
    using assms(2) by (simp add: field_simps)
  moreover have "B * (4278419646001971 / 2251799813685248) / 9007199254740992 < q"
    using assms(3) by (simp add: field_simps)
  ultimately show ?thesis by simp
qed

lemma tdee_Very_active:
  assumes "1 \<le> b" "b < 8192"
  shows "Math_round (js_mul (of_int b) (activityMultipliers Very_active))
         = of_int (round (of_int b * activityMultiplier_exact Very_active))"
proof -
  define k where "k = round (of_int b * (19 / 10) :: rat)"
  let ?x = "of_int b * (4278419646001971 / 2251799813685248) :: rat"
  have "(of_int b * (19 / 10) :: rat) = of_int (76 * b) / 40" by simp
  then have kr: "k = round (of_int (76 * b) / 40 :: rat)" by (simp only: k_def)
  from round_int_bounds [OF kr] have kb: "40 * k - 20 \<le> 76 * b" by simp
  from round_bounds_rat(2) [OF kr] have hi: "76 * (of_int b :: rat) \<le> 40 * of_int k + 19" by simp
  from assms have b: "(1::rat) \<le> of_int b" "(of_int b :: rat) < 8192" by simp_all
  have xabs: "\<bar>?x\<bar> < 2 ^ 47" using b by (simp add: abs_mult)
  have "Math_round (fl ?x) = of_int k"
  proof (cases "40 * k - 20 = 76 * b")
    case True
    then have "(of_int (40 * k - 20) :: rat) = of_int (76 * b)" by (simp only:)
    then have tie: "40 * (of_int k :: rat) - 20 = 76 * of_int b" by simp
    have t: "of_int k - 1 / 2 = (of_int (64 * k - 32) :: rat) / 64" by simp
    have x1: "1 \<le> ?x" using b by linarith
    have "(2::rat) ^ 53 = 9007199254740992" by simp
    with exponent_upper [OF x1]
    have q: "?x < 9007199254740992 * pow2 (exponent ?x - 52)" by (simp only:)
    have "?x - (of_int k - 1 / 2) \<le> 0" using tie b by linarith
    then have "\<bar>?x - (of_int k - 1 / 2)\<bar> = (of_int k - 1 / 2) - ?x" by (simp only: abs_of_nonpos minus_diff_eq)
    moreover have "2 * ((of_int k - 1 / 2) - ?x) < pow2 (exponent ?x - 52)"
      by (rule very_active_tie_arith [OF tie b(1) q])
    ultimately have near: "2 * \<bar>?x - (of_int k - 1 / 2)\<bar> < pow2 (exponent ?x - 52)"
      by (simp only:)
    from x1 have "?x \<noteq> 0" by linarith
    from fl_nearest [OF t xabs this near] have "fl ?x = of_int k - 1 / 2" .
    then show ?thesis by (simp add: Math_round_def)
  next
    case False
    with kb have "10 * k - 5 < 19 * b" by linarith
    then have "40 * k - 16 \<le> 76 * b" by linarith
    then have "(of_int (40 * k - 16) :: rat) \<le> of_int (76 * b)" by (simp only: of_int_le_iff)
    then have lo: "40 * (of_int k :: rat) - 16 \<le> 76 * of_int b" by simp
    show ?thesis
    proof (rule Math_round_fl_between [OF xabs])
      show "of_int k - 1 / 2 \<le> ?x" using lo b by linarith
      show "?x \<le> of_int k + 31 / 64" using hi b by linarith
    qed
  qed
  then show ?thesis
    by (simp only: js_mul_def mult_Very_active k_def activityMultiplier_exact_def
        activity_level.case)
qed

lemma tdee_exact:
  assumes "1 \<le> b" "b < 8192"
  shows "Math_round (js_mul (of_int b) (activityMultipliers a))
         = of_int (spec_tdee b a)"
  unfolding spec_tdee_def using assms
  by (cases a) (simp_all only: tdee_Sedentary tdee_Light tdee_Moderate tdee_Active tdee_Very_active)

subsection \<open>The basal metabolic rate\<close>

text \<open>Every intermediate value is a multiple of \<open>1 / 4\<close> and is computed without rounding.\<close>

lemma fl_quarter:
  assumes "\<bar>n\<bar> < 2 ^ 40"
  shows "fl (of_int n / 4) = of_int n / 4"
proof (rule fl_exact)
  show "(of_int n / 4 :: rat) = of_int (16 * n) / 64" by simp
  from assms have "(of_int \<bar>n\<bar> :: rat) < of_int (2 ^ 40)" by (simp only: of_int_less_iff)
  then have "\<bar>of_int n :: rat\<bar> < 2 ^ 40" by simp
  then show "\<bar>of_int n / 4 :: rat\<bar> < 2 ^ 47" by simp
qed

lemma fl_6_25: "fl (625 / 100) = 25 / 4"
  by code_simp

lemma fl_quarter_eq:
  assumes "x = of_int n / 4" and "\<bar>n\<bar> < 2 ^ 40"
  shows "fl x = of_int n / 4"
  using fl_quarter [OF assms(2)] by (simp only: assms(1))

lemma bmr_expression:
  assumes "valid_biometrics a h w" and "s = 5 \<or> s = - 161"
  shows "Math_round
           (js_add
             (js_sub
               (js_add (js_mul 10 (of_int w)) (js_mul (fl (625 / 100)) (of_int h)))
               (js_mul 5 (of_int a)))
             (of_int s))
         = of_int (round (10 * of_int w + 625 / 100 * of_int h - 5 * of_int a + of_int s :: rat))"
proof -
  from assms have r: "15 \<le> a" "a \<le> 100" "120 \<le> h" "h \<le> 250" "30 \<le> w" "w \<le> 300"
    "- 161 \<le> s" "s \<le> 5"
    by (auto simp: valid_biometrics_def)
  have m1: "js_mul 10 (of_int w) = of_int (40 * w) / 4"
    unfolding js_mul_def using r by (intro fl_quarter_eq) simp_all
  have m2: "js_mul (fl (625 / 100)) (of_int h) = of_int (25 * h) / 4"
    unfolding js_mul_def fl_6_25 using r by (intro fl_quarter_eq) simp_all
  have m3: "js_mul 5 (of_int a) = of_int (20 * a) / 4"
    unfolding js_mul_def using r by (intro fl_quarter_eq) simp_all
  have a1: "js_add (of_int (40 * w) / 4) (of_int (25 * h) / 4) = of_int (40 * w + 25 * h) / 4"
    unfolding js_add_def using r by (intro fl_quarter_eq) (simp_all add: add_divide_distrib)
  have s1: "js_sub (of_int (40 * w + 25 * h) / 4) (of_int (20 * a) / 4)
            = of_int (40 * w + 25 * h - 20 * a) / 4"
    unfolding js_sub_def using r by (intro fl_quarter_eq) (simp_all add: diff_divide_distrib)
  have a2: "js_add (of_int (40 * w + 25 * h - 20 * a) / 4) (of_int s)
            = of_int (40 * w + 25 * h - 20 * a + 4 * s) / 4"
    unfolding js_add_def using r
    by (intro fl_quarter_eq) (simp_all add: add_divide_distrib diff_divide_distrib)
  have "(10 * of_int w + 625 / 100 * of_int h - 5 * of_int a + of_int s :: rat)
        = of_int (40 * w + 25 * h - 20 * a + 4 * s) / 4"
    by (simp add: add_divide_distrib diff_divide_distrib)
  then show ?thesis
    by (simp only: m1 m2 m3 a1 s1 a2 Math_round_def round_def)
qed

lemma spec_bmr_range:
  assumes "valid_biometrics a h w"
  shows "1 \<le> spec_bmr g a h w \<and> spec_bmr g a h w < 8192"
proof -
  let ?v = "10 * of_int w + 625 / 100 * of_int h - 5 * of_int a + mifflin_constant g :: rat"
  from assms have "(15::rat) \<le> of_int a" "(of_int a :: rat) \<le> 100" "(120::rat) \<le> of_int h"
    "(of_int h :: rat) \<le> 250" "(30::rat) \<le> of_int w" "(of_int w :: rat) \<le> 300"
    by (simp_all add: valid_biometrics_def)
  moreover have "- 161 \<le> mifflin_constant g" "mifflin_constant g \<le> 5"
    by (simp_all add: mifflin_constant_def)
  ultimately have "of_int 1 \<le> ?v + 1 / 2" "?v + 1 / 2 < of_int 8192" by simp_all
  then have "1 \<le> \<lfloor>?v + 1 / 2\<rfloor>" "\<lfloor>?v + 1 / 2\<rfloor> < 8192"
    by (simp_all only: le_floor_iff floor_less_iff)
  then show ?thesis by (simp only: spec_bmr_def round_def)
qed

lemma calculateBMR_onboarding_exact:
  assumes "valid_biometrics (age p) (height p) (weight p)"
  shows "calculateBMR_onboarding p = of_int (spec_bmr (gender p) (age p) (height p) (weight p))"
proof (cases "gender p = Male")
  case True
  with bmr_expression [OF assms, of 5] show ?thesis
    by (simp add: calculateBMR_onboarding_def spec_bmr_def mifflin_constant_def)
next
  case False
  with bmr_expression [OF assms, of "- 161"] show ?thesis
    by (simp add: calculateBMR_onboarding_def spec_bmr_def mifflin_constant_def)
qed

lemma calculateBMR_profile_exact:
  assumes "valid_biometrics (age p) (height p) (weight p)"
  shows "calculateBMR_profile p = of_int (spec_bmr (gender p) (age p) (height p) (weight p))"
proof (cases "gender p = Male")
  case True
  with bmr_expression [OF assms, of 5] show ?thesis
    by (simp add: calculateBMR_profile_def spec_bmr_def mifflin_constant_def)
next
  case False
  with bmr_expression [OF assms, of "- 161"] show ?thesis
    by (simp add: calculateBMR_profile_def spec_bmr_def mifflin_constant_def)
qed

lemma spec_tdee_range:
  assumes "1 \<le> b" "b < 8192"
  shows "0 \<le> spec_tdee b a \<and> spec_tdee b a < 16384"
proof -
  from assms have b: "(1::rat) \<le> of_int b" "(of_int b :: rat) < 8192" by simp_all
  have m: "1 \<le> activityMultiplier_exact a" "activityMultiplier_exact a \<le> 19 / 10"
    by (cases a; simp add: activityMultiplier_exact_def)+
  have "of_int b * activityMultiplier_exact a \<le> of_int b * (19 / 10)"
    using b m by (intro mult_left_mono) simp_all
  moreover have "of_int b * 1 \<le> of_int b * activityMultiplier_exact a"
    using b m by (intro mult_left_mono) simp_all
  ultimately have "of_int 0 \<le> of_int b * activityMultiplier_exact a + 1 / 2"
    "of_int b * activityMultiplier_exact a + 1 / 2 < of_int 16384"
    using b by (simp_all only: of_int_0 of_int_numeral)
  then have "0 \<le> \<lfloor>of_int b * activityMultiplier_exact a + 1 / 2\<rfloor>"
    "\<lfloor>of_int b * activityMultiplier_exact a + 1 / 2\<rfloor> < 16384"
    by (simp_all only: le_floor_iff floor_less_iff)
  then show ?thesis by (simp only: spec_tdee_def round_def)
qed

lemma target_exact:
  assumes "0 \<le> t" "t < 16384"
  shows "js_add (of_int t) (if g = Lose then - 500 else if g = Gain then 500 else 0)
         = of_int (t + goal_delta g)"
proof -
  have "js_add (of_int t) (of_int (goal_delta g)) = of_int (4 * (t + goal_delta g)) / 4"
    unfolding js_add_def using assms
    by (intro fl_quarter_eq) (cases g; simp add: goal_delta_def)+
  moreover have "(if g = Lose then - 500 else if g = Gain then 500 else 0 :: rat)
                 = of_int (goal_delta g)"
    by (cases g) (simp_all add: goal_delta_def)
  ultimately show ?thesis by simp
qed

subsection \<open>What the two pages write\<close>

lemma onboarding_energy:
  assumes "valid_biometrics (age p) (height p) (weight p)"
  shows "handleSubmit_onboarding (Some uid) now p =
     Inr \<lparr>upsert_id = uid, upsert_profile = p,
          upsert_energy =
            \<lparr>bmr = of_int (spec_bmr (gender p) (age p) (height p) (weight p)),
             tdee = of_int (spec_tdee (spec_bmr (gender p) (age p) (height p) (weight p))
                              (activityLevel p)),
             target_calories =
               of_int (spec_tdee (spec_bmr (gender p) (age p) (height p) (weight p))
                         (activityLevel p) + goal_delta (goal p))\<rparr>,
          upsert_updated_at = now\<rparr>"
proof -
  let ?b = "spec_bmr (gender p) (age p) (height p) (weight p)"
  let ?t = "spec_tdee ?b (activityLevel p)"
  have b: "calculateBMR_onboarding p = of_int ?b"
    by (rule calculateBMR_onboarding_exact [OF assms])
  from spec_bmr_range [OF assms] have br: "1 \<le> ?b" "?b < 8192" by simp_all
  have t: "calculateTDEE_onboarding p (of_int ?b) = of_int ?t"
    unfolding calculateTDEE_onboarding_def by (rule tdee_exact [OF br])
  from spec_tdee_range [OF br] have tr: "0 \<le> ?t" "?t < 16384" by simp_all
  have c: "js_add (of_int ?t) (if goal p = Lose then - 500 else if goal p = Gain then 500 else 0)
           = of_int (?t + goal_delta (goal p))"
    by (rule target_exact [OF tr])
  show ?thesis
    by (simp only: handleSubmit_onboarding_def option.case Let_def b t c)
qed

lemma profile_energy:
  assumes "valid_biometrics (age p) (height p) (weight p)"
  shows "handleSubmit_profile now (Some p) =
     Inr \<lparr>update_profile = p\<lparr>energy :=
            \<lparr>bmr = of_int (spec_bmr (gender p) (age p) (height p) (weight p)),
             tdee = of_int (spec_tdee (spec_bmr (gender p) (age p) (height p) (weight p))
                              (activity_level p)),
             target_calories =
               of_int (spec_tdee (spec_bmr (gender p) (age p) (height p) (weight p))
                         (activity_level p) + goal_delta (goal p))\<rparr>\<rparr>,
          update_updated_at = now,
          update_where_id = profile_id p\<rparr>"
proof -
  let ?b = "spec_bmr (gender p) (age p) (height p) (weight p)"
  let ?t = "spec_tdee ?b (activity_level p)"
  have b: "calculateBMR_profile p = of_int ?b"
    by (rule calculateBMR_profile_exact [OF assms])
  from spec_bmr_range [OF assms] have br: "1 \<le> ?b" "?b < 8192" by simp_all
  have t: "calculateTDEE_profile (of_int ?b) (activity_level p) = of_int ?t"
    unfolding calculateTDEE_profile_def by (rule tdee_exact [OF br])
  from spec_tdee_range [OF br] have tr: "0 \<le> ?t" "?t < 16384" by simp_all
  have c: "js_add (of_int ?t) (if goal p = Lose then - 500 else if goal p = Gain then 500 else 0)
           = of_int (?t + goal_delta (goal p))"
    by (rule target_exact [OF tr])
  show ?thesis
    by (simp only: handleSubmit_profile_def option.case Let_def b t c)
qed

lemma floor_numeral_quotient:
  "\<lfloor>numeral a / numeral b :: rat\<rfloor> = numeral a div numeral b"
  using floor_divide_of_int_eq [of "numeral a" "numeral b", where ?'a = rat] by simp

lemma spec_example_male: "spec_bmr Male 25 170 70 = 1643" "spec_tdee 1643 Moderate = 2547"
  by (simp_all add: spec_bmr_def spec_tdee_def mifflin_constant_def activityMultiplier_exact_def
      round_def floor_numeral_quotient)

lemma spec_example_female: "spec_bmr Female 30 160 60 = 1289" "spec_tdee 1289 Sedentary = 1547"
  by (simp_all add: spec_bmr_def spec_tdee_def mifflin_constant_def activityMultiplier_exact_def
      round_def floor_numeral_quotient)

lemma onboarding_example_male:
  "handleSubmit_onboarding (Some uid) now
     \<lparr>name = n, gender = Male, age = 25, height = 170, weight = 70, goal = Lose,
      activityLevel = Moderate\<rparr>
   = Inr \<lparr>upsert_id = uid,
          upsert_profile = \<lparr>name = n, gender = Male, age = 25, height = 170, weight = 70,
                            goal = Lose, activityLevel = Moderate\<rparr>,
          upsert_energy = \<lparr>bmr = 1643, tdee = 2547, target_calories = 2047\<rparr>,
          upsert_updated_at = now\<rparr>"
proof -
  let ?p = "\<lparr>name = n, gender = Male, age = 25, height = 170, weight = 70, goal = Lose,
      activityLevel = Moderate\<rparr>"
  have "valid_biometrics (age ?p) (height ?p) (weight ?p)" by (simp add: valid_biometrics_def)
  from onboarding_energy [OF this, of uid now] show ?thesis
    by (simp add: spec_example_male goal_delta_def)
qed

lemma onboarding_example_female:
  "handleSubmit_onboarding (Some uid) now
     \<lparr>name = n, gender = Female, age = 30, height = 160, weight = 60, goal = Maintain,
      activityLevel = Sedentary\<rparr>
   = Inr \<lparr>upsert_id = uid,
          upsert_profile = \<lparr>name = n, gender = Female, age = 30, height = 160, weight = 60,
                            goal = Maintain, activityLevel = Sedentary\<rparr>,
          upsert_energy = \<lparr>bmr = 1289, tdee = 1547, target_calories = 1547\<rparr>,
          upsert_updated_at = now\<rparr>"
proof -
  let ?p = "\<lparr>name = n, gender = Female, age = 30, height = 160, weight = 60, goal = Maintain,
      activityLevel = Sedentary\<rparr>"
  have "valid_biometrics (age ?p) (height ?p) (weight ?p)" by (simp add: valid_biometrics_def)
  from onboarding_energy [OF this, of uid now] show ?thesis
    by (simp add: spec_example_female goal_delta_def)
qed

lemma profile_example_male:
  "handleSubmit_profile now
     (Some \<lparr>name = n, gender = Male, age = 25, height = 170, weight = 70, goal = Lose,
            profile_id = i, activity_level = Moderate, energy = e\<rparr>)
   = Inr \<lparr>update_profile =
            \<lparr>name = n, gender = Male, age = 25, height = 170, weight = 70, goal = Lose,
             profile_id = i, activity_level = Moderate,
             energy = \<lparr>bmr = 1643, tdee = 2547, target_calories = 2047\<rparr>\<rparr>,
          update_updated_at = now, update_where_id = i\<rparr>"
proof -
  let ?p = "\<lparr>name = n, gender = Male, age = 25, height = 170, weight = 70, goal = Lose,
            profile_id = i, activity_level = Moderate, energy = e\<rparr>"
  have "valid_biometrics (age ?p) (height ?p) (weight ?p)" by (simp add: valid_biometrics_def)
  from profile_energy [OF this, of now] show ?thesis
    by (simp add: spec_example_male goal_delta_def)
qed

lemma profile_example_female:
  "handleSubmit_profile now
     (Some \<lparr>name = n, gender = Female, age = 30, height = 160, weight = 60, goal = Maintain,
            profile_id = i, activity_level = Sedentary, energy = e\<rparr>)
   = Inr \<lparr>update_profile =
            \<lparr>name = n, gender = Female, age = 30, height = 160, weight = 60, goal = Maintain,
             profile_id = i, activity_level = Sedentary,
             energy = \<lparr>bmr = 1289, tdee = 1547, target_calories = 1547\<rparr>\<rparr>,
          update_updated_at = now, update_where_id = i\<rparr>"
proof -
  let ?p = "\<lparr>name = n, gender = Female, age = 30, height = 160, weight = 60, goal = Maintain,
            profile_id = i, activity_level = Sedentary, energy = e\<rparr>"
  have "valid_biometrics (age ?p) (height ?p) (weight ?p)" by (simp add: valid_biometrics_def)
  from profile_energy [OF this, of now] show ?thesis
    by (simp add: spec_example_female goal_delta_def)
qed

text \<open>
  Claim C1. For a profile whose age lies in [15, 100], height in [120, 250] and weight in
  [30, 300], the onboarding page writes
  \<open>bmr = round (10 * weight + 6.25 * height - 5 * age + s)\<close> with \<open>s = 5\<close> for male and
  \<open>s = -161\<close> otherwise, \<open>tdee = round (bmr * m)\<close> with \<open>m\<close> the decimal multiplier of the
  activity level, and \<open>target_calories = tdee - 500\<close>, \<open>tdee + 500\<close> or \<open>tdee\<close> for the
  goals lose, gain and maintain. The right-hand sides are exact rational arithmetic; the
  left-hand sides are what the double arithmetic of the page produces.
\<close>

theorem energy_targets_formula:
  assumes "valid_biometrics (age p) (height p) (weight p)"
  shows "\<exists>w. handleSubmit_onboarding (Some uid) now p = Inr w
     \<and> bmr (upsert_energy w)
         = of_int (round (10 * of_int (weight p) + 625 / 100 * of_int (height p)
                          - 5 * of_int (age p)
                          + (if gender p = Male then 5 else - 161) :: rat))
     \<and> tdee (upsert_energy w)
         = of_int (round (bmr (upsert_energy w)
             * (case activityLevel p of Sedentary \<Rightarrow> 12 / 10 | Light \<Rightarrow> 1375 / 1000
                | Moderate \<Rightarrow> 155 / 100 | Active \<Rightarrow> 1725 / 1000 | Very_active \<Rightarrow> 19 / 10)))
     \<and> target_calories (upsert_energy w)
         = tdee (upsert_energy w)
           + (case goal p of Lose \<Rightarrow> - 500 | Gain \<Rightarrow> 500 | Maintain \<Rightarrow> 0)"
  unfolding onboarding_energy [OF assms]
  by (simp add: spec_bmr_def spec_tdee_def mifflin_constant_def activityMultiplier_exact_def
      goal_delta_def split: goal.split)

theorem energy_targets_formula_witness:
  "valid_biometrics 25 170 70
   \<and> (\<exists>w. handleSubmit_onboarding (Some ''u'') ''t''
          \<lparr>name = ''n'', gender = Male, age = 25, height = 170, weight = 70, goal = Lose,
           activityLevel = Moderate\<rparr> = Inr w
        \<and> bmr (upsert_energy w) = 1643 \<and> tdee (upsert_energy w) = 2547
        \<and> target_calories (upsert_energy w) = 2047)"
proof -
  let ?p = "\<lparr>name = ''n'', gender = Male, age = 25, height = 170, weight = 70, goal = Lose,
           activityLevel = Moderate\<rparr>"
  have v: "valid_biometrics (age ?p) (height ?p) (weight ?p)"
    by (simp add: valid_biometrics_def)
  from energy_targets_formula [OF v, of "''u''" "''t''"]
  obtain w where w: "handleSubmit_onboarding (Some ''u'') ''t'' ?p = Inr w"
    and b: "bmr (upsert_energy w) = of_int (round (10 * of_int (weight ?p) + 625 / 100 * of_int (height ?p)
                          - 5 * of_int (age ?p)
                          + (if gender ?p = Male then 5 else - 161) :: rat))"
    and t: "tdee (upsert_energy w)
         = of_int (round (bmr (upsert_energy w)
             * (case activityLevel ?p of Sedentary \<Rightarrow> 12 / 10 | Light \<Rightarrow> 1375 / 1000
                | Moderate \<Rightarrow> 155 / 100 | Active \<Rightarrow> 1725 / 1000 | Very_active \<Rightarrow> 19 / 10)))"
    and c: "target_calories (upsert_energy w)
         = tdee (upsert_energy w)
           + (case goal ?p of Lose \<Rightarrow> - 500 | Gain \<Rightarrow> 500 | Maintain \<Rightarrow> 0)"
    by blast
  from b have b': "bmr (upsert_energy w) = 1643" by (simp add: round_def floor_numeral_quotient)
  from t have t': "tdee (upsert_energy w) = 2547" by (simp add: b' round_def floor_numeral_quotient)
  from c have c': "target_calories (upsert_energy w) = 2047" by (simp add: t')
  from w b' t' c' show ?thesis by (simp add: valid_biometrics_def)
qed

text \<open>
  Claim C9. The two worked examples: male, 25 years, 170 cm, 70 kg, moderate, lose gives
  1643, 2547 and 2047; female, 30 years, 160 cm, 60 kg, sedentary, maintain gives 1289,
  1547 and 1547; on the onboarding page and on the profile page alike.
\<close>

theorem energy_examples:
  "handleSubmit_onboarding (Some uid) now
     \<lparr>name = n, gender = Male, age = 25, height = 170, weight = 70, goal = Lose,
      activityLevel = Moderate\<rparr>
   = Inr \<lparr>upsert_id = uid,
          upsert_profile = \<lparr>name = n, gender = Male, age = 25, height = 170, weight = 70,
                            goal = Lose, activityLevel = Moderate\<rparr>,
          upsert_energy = \<lparr>bmr = 1643, tdee = 2547, target_calories = 2047\<rparr>,
          upsert_updated_at = now\<rparr>
   \<and> handleSubmit_onboarding (Some uid) now
     \<lparr>name = n, gender = Female, age = 30, height = 160, weight = 60, goal = Maintain,
      activityLevel = Sedentary\<rparr>
   = Inr \<lparr>upsert_id = uid,
          upsert_profile = \<lparr>name = n, gender = Female, age = 30, height = 160, weight = 60,
                            goal = Maintain, activityLevel = Sedentary\<rparr>,
          upsert_energy = \<lparr>bmr = 1289, tdee = 1547, target_calories = 1547\<rparr>,
          upsert_updated_at = now\<rparr>
   \<and> handleSubmit_profile now
     (Some \<lparr>name = n, gender = Male, age = 25, height = 170, weight = 70, goal = Lose,
            profile_id = i, activity_level = Moderate, energy = e\<rparr>)
   = Inr \<lparr>update_profile =
            \<lparr>name = n, gender = Male, age = 25, height = 170, weight = 70, goal = Lose,
             profile_id = i, activity_level = Moderate,
             energy = \<lparr>bmr = 1643, tdee = 2547, target_calories = 2047\<rparr>\<rparr>,
          update_updated_at = now, update_where_id = i\<rparr>
   \<and> handleSubmit_profile now
     (Some \<lparr>name = n, gender = Female, age = 30, height = 160, weight = 60, goal = Maintain,
            profile_id = i, activity_level = Sedentary, energy = e\<rparr>)
   = Inr \<lparr>update_profile =
            \<lparr>name = n, gender = Female, age = 30, height = 160, weight = 60, goal = Maintain,
             profile_id = i, activity_level = Sedentary,
             energy = \<lparr>bmr = 1289, tdee = 1547, target_calories = 1547\<rparr>\<rparr>,
          update_updated_at = now, update_where_id = i\<rparr>"
  by (intro conjI onboarding_example_male onboarding_example_female profile_example_male
      profile_example_female)

text \<open>
  Claim C8. Each of the two writes of a profile stores the three derived fields together,
  computed from the input fields stored by the same write: the onboarding page from the
  form state it spreads into the row, the profile page from the fields of the row it
  sends, whatever derived values the state held before.
\<close>

theorem derived_fields_recomputed_together:
  "(handleSubmit_onboarding user now p = Inr w \<longrightarrow>
      upsert_profile w = p
      \<and> bmr (upsert_energy w) = calculateBMR_onboarding p
      \<and> tdee (upsert_energy w) = calculateTDEE_onboarding p (bmr (upsert_energy w))
      \<and> target_calories (upsert_energy w)
          = js_add (tdee (upsert_energy w))
              (if goal p = Lose then - 500 else if goal p = Gain then 500 else 0))
   \<and> (handleSubmit_profile now (Some q) = Inr v \<longrightarrow>
      biometrics.truncate (update_profile v) = biometrics.truncate q
      \<and> profile_id (update_profile v) = profile_id q
      \<and> activity_level (update_profile v) = activity_level q
      \<and> bmr (energy (update_profile v)) = calculateBMR_profile (update_profile v)
      \<and> tdee (energy (update_profile v))
          = calculateTDEE_profile (bmr (energy (update_profile v)))
              (activity_level (update_profile v))
      \<and> target_calories (energy (update_profile v))
          = js_add (tdee (energy (update_profile v)))
              (if goal (update_profile v) = Lose then - 500
               else if goal (update_profile v) = Gain then 500 else 0))
   \<and> handleSubmit_profile now (Some (q\<lparr>energy := stale\<rparr>)) = handleSubmit_profile now (Some q)"
proof (intro conjI impI)
  assume a: "handleSubmit_onboarding user now p = Inr w"
  then obtain u where "user = Some u"
    by (cases user) (simp_all add: handleSubmit_onboarding_def)
  with a have w: "w = \<lparr>upsert_id = u, upsert_profile = p,
      upsert_energy = \<lparr>bmr = calculateBMR_onboarding p,
        tdee = calculateTDEE_onboarding p (calculateBMR_onboarding p),
        target_calories = js_add (calculateTDEE_onboarding p (calculateBMR_onboarding p))
          (if goal p = Lose then - 500 else if goal p = Gain then 500 else 0)\<rparr>,
      upsert_updated_at = now\<rparr>"
    by (simp add: handleSubmit_onboarding_def Let_def)
  show "upsert_profile w = p" by (simp add: w)
  show "bmr (upsert_energy w) = calculateBMR_onboarding p" by (simp add: w)
  show "tdee (upsert_energy w) = calculateTDEE_onboarding p (bmr (upsert_energy w))"
    by (simp add: w)
  show "target_calories (upsert_energy w)
          = js_add (tdee (upsert_energy w))
              (if goal p = Lose then - 500 else if goal p = Gain then 500 else 0)"
    by (simp add: w)
next
  assume "handleSubmit_profile now (Some q) = Inr v"
  then have v: "v = \<lparr>update_profile = q\<lparr>energy := \<lparr>bmr = calculateBMR_profile q,
        tdee = calculateTDEE_profile (calculateBMR_profile q) (activity_level q),
        target_calories =
          js_add (calculateTDEE_profile (calculateBMR_profile q) (activity_level q))
            (if goal q = Lose then - 500 else if goal q = Gain then 500 else 0)\<rparr>\<rparr>,
      update_updated_at = now, update_where_id = profile_id q\<rparr>"
    by (simp add: handleSubmit_profile_def Let_def)
  have same: "calculateBMR_profile (update_profile v) = calculateBMR_profile q"
    by (simp add: v calculateBMR_profile_def)
  show "biometrics.truncate (update_profile v) = biometrics.truncate q"
    by (simp add: v biometrics.truncate_def)
  show "profile_id (update_profile v) = profile_id q" by (simp add: v)
  show "activity_level (update_profile v) = activity_level q" by (simp add: v)
  show "bmr (energy (update_profile v)) = calculateBMR_profile (update_profile v)"
    unfolding same by (simp add: v)
  show "tdee (energy (update_profile v))
          = calculateTDEE_profile (bmr (energy (update_profile v)))
              (activity_level (update_profile v))"
    by (simp add: v)
  show "target_calories (energy (update_profile v))
          = js_add (tdee (energy (update_profile v)))
              (if goal (update_profile v) = Lose then - 500
               else if goal (update_profile v) = Gain then 500 else 0)"
    by (simp add: v)
next
  show "handleSubmit_profile now (Some (q\<lparr>energy := stale\<rparr>)) = handleSubmit_profile now (Some q)"
    by (simp add: handleSubmit_profile_def Let_def calculateBMR_profile_def)
qed

theorem derived_fields_recomputed_together_witness:
  "handleSubmit_onboarding (Some ''u'') ''t''
     \<lparr>name = ''n'', gender = Male, age = 25, height = 170, weight = 70, goal = Lose,
      activityLevel = Moderate\<rparr>
   = Inr \<lparr>upsert_id = ''u'',
          upsert_profile = \<lparr>name = ''n'', gender = Male, age = 25, height = 170, weight = 70,
                            goal = Lose, activityLevel = Moderate\<rparr>,
          upsert_energy = \<lparr>bmr = 1643, tdee = 2547, target_calories = 2047\<rparr>,
          upsert_updated_at = ''t''\<rparr>
   \<and> calculateBMR_onboarding
       \<lparr>name = ''n'', gender = Male, age = 25, height = 170, weight = 70, goal = Lose,
        activityLevel = Moderate\<rparr> = 1643
   \<and> handleSubmit_profile ''t''
     (Some \<lparr>name = ''n'', gender = Male, age = 25, height = 170, weight = 70, goal = Lose,
            profile_id = ''i'', activity_level = Moderate,
            energy = \<lparr>bmr = 0, tdee = 0, target_calories = 0\<rparr>\<rparr>)
   = Inr \<lparr>update_profile =
            \<lparr>name = ''n'', gender = Male, age = 25, height = 170, weight = 70, goal = Lose,
             profile_id = ''i'', activity_level = Moderate,
             energy = \<lparr>bmr = 1643, tdee = 2547, target_calories = 2047\<rparr>\<rparr>,
          update_updated_at = ''t'', update_where_id = ''i''\<rparr>
   \<and> calculateBMR_profile
       \<lparr>name = ''n'', gender = Male, age = 25, height = 170, weight = 70, goal = Lose,
        profile_id = ''i'', activity_level = Moderate,
        energy = \<lparr>bmr = 1643, tdee = 2547, target_calories = 2047\<rparr>\<rparr> = 1643"
proof -
  let ?p = "\<lparr>name = ''n'', gender = Male, age = 25, height = 170, weight = 70, goal = Lose,
      activityLevel = Moderate\<rparr>"
  let ?w = "\<lparr>upsert_id = ''u'', upsert_profile = ?p,
          upsert_energy = \<lparr>bmr = 1643, tdee = 2547, target_calories = 2047\<rparr>,
          upsert_updated_at = ''t''\<rparr>"
  let ?q = "\<lparr>name = ''n'', gender = Male, age = 25, height = 170, weight = 70, goal = Lose,
            profile_id = ''i'', activity_level = Moderate,
            energy = \<lparr>bmr = 0, tdee = 0, target_calories = 0\<rparr>\<rparr>"
  let ?v = "\<lparr>update_profile =
            \<lparr>name = ''n'', gender = Male, age = 25, height = 170, weight = 70, goal = Lose,
             profile_id = ''i'', activity_level = Moderate,
             energy = \<lparr>bmr = 1643, tdee = 2547, target_calories = 2047\<rparr>\<rparr>,
          update_updated_at = ''t'', update_where_id = ''i''\<rparr>"
  have a: "handleSubmit_onboarding (Some ''u'') ''t'' ?p = Inr ?w"
    by (rule onboarding_example_male)
  have b: "handleSubmit_profile ''t'' (Some ?q) = Inr ?v"
    by (rule profile_example_male)
  from derived_fields_recomputed_together
    [where user = "Some ''u''" and now = "''t''" and p = ?p and w = ?w and q = ?q and v = ?v] a b
  have "bmr (upsert_energy ?w) = calculateBMR_onboarding ?p"
    and "bmr (energy (update_profile ?v)) = calculateBMR_profile (update_profile ?v)"
    by blast+
  then have "calculateBMR_onboarding ?p = 1643"
    and "calculateBMR_profile (update_profile ?v) = 1643"
    by simp_all
  with a b show ?thesis by simp
qed

section \<open>Properties of the session gate\<close>

lemma startsWith_iff: "startsWith s p \<longleftrightarrow> (\<exists>rest. s = p @ rest)"
proof
  assume "startsWith s p"
  then have "s = p @ drop (length p) s"
    by (metis append_take_drop_id startsWith_def)
  then show "\<exists>rest. s = p @ rest" ..
next
  assume "\<exists>rest. s = p @ rest"
  then show "startsWith s p" by (auto simp: startsWith_def)
qed

text \<open>
  Claim C3. A signed-in request for a path that begins with \<^verbatim>\<open>/auth\<close> or is \<^verbatim>\<open>/\<close>
  is redirected to \<^verbatim>\<open>/dashboard\<close>; a request without a session for a path that begins with
  \<^verbatim>\<open>/dashboard\<close> or \<^verbatim>\<open>/onboarding\<close> is redirected to \<^verbatim>\<open>/auth/login\<close>; every other
  request passes. The three examples of the specification are instances. (Which requests
  reach the function at all is decided by the \<^verbatim>\<open>matcher\<close> of the framework, outside it.)
\<close>

theorem middleware_decision:
  "((session :: 'session option) \<noteq> None \<and> ((\<exists>rest. pathname = ''/auth'' @ rest) \<or> pathname = ''/'')
      \<longrightarrow> middleware session pathname = Redirect ''/dashboard'')
   \<and> (session = None
        \<and> ((\<exists>rest. pathname = ''/dashboard'' @ rest) \<or> (\<exists>rest. pathname = ''/onboarding'' @ rest))
      \<longrightarrow> middleware session pathname = Redirect ''/auth/login'')
   \<and> (\<not> (session \<noteq> None \<and> ((\<exists>rest. pathname = ''/auth'' @ rest) \<or> pathname = ''/''))
        \<and> \<not> (session = None
              \<and> ((\<exists>rest. pathname = ''/dashboard'' @ rest)
                  \<or> (\<exists>rest. pathname = ''/onboarding'' @ rest)))
      \<longrightarrow> middleware session pathname = Next)
   \<and> middleware (Some (s :: 'session)) ''/auth/login'' = Redirect ''/dashboard''
   \<and> middleware (None :: 'session option) ''/dashboard/progress'' = Redirect ''/auth/login''
   \<and> middleware (None :: 'session option) ''/about'' = Next"
proof -
  have ex: "middleware (Some s) ''/auth/login'' = Redirect ''/dashboard''"
    "middleware (None :: 'session option) ''/dashboard/progress'' = Redirect ''/auth/login''"
    "middleware (None :: 'session option) ''/about'' = Next"
    by (simp_all add: middleware_def startsWith_def)
  have gen: "middleware session pathname =
     (if session \<noteq> None \<and> ((\<exists>rest. pathname = ''/auth'' @ rest) \<or> pathname = ''/'')
      then Redirect ''/dashboard''
      else if session = None
           \<and> ((\<exists>rest. pathname = ''/dashboard'' @ rest) \<or> (\<exists>rest. pathname = ''/onboarding'' @ rest))
      then Redirect ''/auth/login'' else Next)"
    unfolding middleware_def startsWith_iff by simp
  show ?thesis unfolding gen using ex [unfolded gen] by auto
qed

theorem middleware_decision_witness:
  "middleware (Some ()) ''/auth/login'' = Redirect ''/dashboard''
   \<and> middleware (None :: unit option) ''/onboarding'' = Redirect ''/auth/login''
   \<and> middleware (Some ()) ''/dashboard'' = Next"
proof -
  have a: "Some () \<noteq> None \<and> ((\<exists>rest. ''/auth/login'' = ''/auth'' @ rest) \<or> ''/auth/login'' = ''/'')"
    by simp
  have b: "(None :: unit option) = None
        \<and> ((\<exists>rest. ''/onboarding'' = ''/dashboard'' @ rest) \<or> (\<exists>rest. ''/onboarding'' = ''/onboarding'' @ rest))"
    by simp
  have c: "\<not> (Some () \<noteq> None \<and> ((\<exists>rest. ''/dashboard'' = ''/auth'' @ rest) \<or> ''/dashboard'' = ''/''))
        \<and> \<not> (Some () = None
              \<and> ((\<exists>rest. ''/dashboard'' = ''/dashboard'' @ rest)
                  \<or> (\<exists>rest. ''/dashboard'' = ''/onboarding'' @ rest)))"
    by simp
  note d = middleware_decision [where s = "()"]
  from d [where session = "Some ()" and pathname = "''/auth/login''", THEN conjunct1] a
  have 1: "middleware (Some ()) ''/auth/login'' = Redirect ''/dashboard''" by (rule mp)
  from d [where session = "None" and pathname = "''/onboarding''", THEN conjunct2, THEN conjunct1] b
  have 2: "middleware (None :: unit option) ''/onboarding'' = Redirect ''/auth/login''" by (rule mp)
  from d [where session = "Some ()" and pathname = "''/dashboard''", THEN conjunct2, THEN conjunct2,
      THEN conjunct1] c
  have 3: "middleware (Some ()) ''/dashboard'' = Next" by (rule mp)
  from 1 2 3 show ?thesis by simp
qed

section \<open>Properties of the meal analysis endpoint\<close>

lemma POST_unauthorized:
  "POST JSON_parse estimator None request_json
   = (\<lparr>status = 401, body = Text ''Unauthorized''\<rparr>, [])"
  by (simp add: POST_def)

lemma POST_calls:
  assumes "snd (POST JSON_parse estimator session request_json) \<noteq> []"
  shows "session \<noteq> None
     \<and> (\<exists>v mt. request_json = Some v \<and> destructure_mealText v = Returns (Some mt)
          \<and> truthy (Some mt)
          \<and> snd (POST JSON_parse estimator session request_json) = [mt])"
proof (cases session)
  case None
  with assms show ?thesis by (simp add: POST_def)
next
  case (Some s)
  show ?thesis
  proof (cases request_json)
    case None
    with assms Some show ?thesis by (simp add: POST_def)
  next
    case v: (Some v)
    show ?thesis
    proof (cases "destructure_mealText v")
      case Throws
      with assms Some v show ?thesis by (simp add: POST_def)
    next
      case (Returns m)
      show ?thesis
      proof (cases "truthy m")
        case False
        with assms Some v Returns show ?thesis by (simp add: POST_def)
      next
        case True
        then obtain mt where m: "m = Some mt" by (cases m) (simp_all add: truthy_def)
        have "snd (POST JSON_parse estimator session request_json) = [mt]"
          using Some v Returns True m
          by (simp add: POST_def split: completion.split option.split)
        with Some v Returns True m show ?thesis by simp
      qed
    qed
  qed
qed

lemma POST_bad_request:
  assumes "session \<noteq> None" and "request_json = Some (JObj members)"
    and "get_property members ''mealText'' = None
         \<or> get_property members ''mealText'' = Some (JStr [])"
  shows "POST JSON_parse estimator session request_json
         = (\<lparr>status = 400, body = Text ''Meal text is required''\<rparr>, [])"
proof -
  from assms(1) obtain s where s: "session = Some s" by (cases session) simp_all
  from assms(3) have "\<not> truthy (get_property members ''mealText'')"
    by (auto simp: truthy_def)
  with s assms(2) show ?thesis by (simp add: POST_def destructure_mealText_def)
qed

lemma POST_falsy:
  assumes "session \<noteq> None" and "request_json = Some v"
    and "destructure_mealText v = Returns m" and "\<not> truthy m"
  shows "POST JSON_parse estimator session request_json
         = (\<lparr>status = 400, body = Text ''Meal text is required''\<rparr>, [])"
proof -
  from assms(1) obtain s where s: "session = Some s" by (cases session) simp_all
  with assms(2-4) show ?thesis by (simp add: POST_def)
qed

lemma POST_unreadable:
  assumes "session \<noteq> None" and "request_json = None \<or> request_json = Some JNull"
  shows "POST JSON_parse estimator session request_json = (error_response, [])"
proof -
  from assms(1) obtain s where s: "session = Some s" by (cases session) simp_all
  from assms(2) show ?thesis
  proof
    assume "request_json = None"
    with s show ?thesis by (simp add: POST_def)
  next
    assume "request_json = Some JNull"
    with s show ?thesis by (simp add: POST_def destructure_mealText_def)
  qed
qed

lemma destructure_mealText_Returns:
  "v \<noteq> JNull \<Longrightarrow> \<exists>m. destructure_mealText v = Returns m"
  by (cases v) (simp_all add: destructure_mealText_def)

text \<open>
  Claim C10, as stated, fails for a request that has a session and a body that is not JSON
  or is the JSON value \<^verbatim>\<open>null\<close>: reading \<^verbatim>\<open>mealText\<close> from it throws, and the endpoint
  answers 500, not 400.
\<close>

theorem analyze_meal_unreadable_body:
  "POST (map_of []) (Content \<circ> map_of []) (Some ()) (Some JNull)
     = (\<lparr>status = 500, body = Text ''Error analyzing meal''\<rparr>, [])
   \<and> POST (map_of []) (Content \<circ> map_of []) (Some ()) None
     = (\<lparr>status = 500, body = Text ''Error analyzing meal''\<rparr>, [])"
  by (simp add: POST_def destructure_mealText_def error_response_def)


text \<open>
  Claim C10, amended. Without a session the endpoint answers 401 and never calls the
  provider. With a session and a body that is not JSON or is \<^verbatim>\<open>null\<close> it answers 500 and
  never calls the provider. With a session and any other JSON body whose \<^verbatim>\<open>mealText\<close> is
  missing or falsy, the empty string among the falsy values, it answers 400 and never calls
  the provider. Whenever the provider is called, there was a session and a truthy meal
  text, and it is called once, with that text.
\<close>

theorem analyze_meal_guards_by_body:
  "POST JSON_parse estimator (None :: 'session option) request_json
     = (\<lparr>status = 401, body = Text ''Unauthorized''\<rparr>, [])
   \<and> ((session :: 'session option) \<noteq> None
        \<and> (request_json = None \<or> request_json = Some JNull)
      \<longrightarrow> POST JSON_parse estimator session request_json
          = (\<lparr>status = 500, body = Text ''Error analyzing meal''\<rparr>, []))
   \<and> (session \<noteq> None \<and> request_json = Some v \<and> v \<noteq> JNull
      \<longrightarrow> (\<exists>m. destructure_mealText v = Returns m
            \<and> (\<not> truthy m
               \<longrightarrow> POST JSON_parse estimator session request_json
                   = (\<lparr>status = 400, body = Text ''Meal text is required''\<rparr>, []))))
   \<and> (session \<noteq> None \<and> request_json = Some (JObj members)
        \<and> (get_property members ''mealText'' = None
            \<or> get_property members ''mealText'' = Some (JStr []))
      \<longrightarrow> POST JSON_parse estimator session request_json
          = (\<lparr>status = 400, body = Text ''Meal text is required''\<rparr>, []))
   \<and> (snd (POST JSON_parse estimator session request_json) \<noteq> []
      \<longrightarrow> session \<noteq> None
          \<and> (\<exists>v mt. request_json = Some v \<and> destructure_mealText v = Returns (Some mt)
               \<and> truthy (Some mt)
               \<and> snd (POST JSON_parse estimator session request_json) = [mt]))"
proof -
  have 1: "POST JSON_parse estimator (None :: 'session option) request_json
     = (\<lparr>status = 401, body = Text ''Unauthorized''\<rparr>, [])"
    by (rule POST_unauthorized)
  have 2: "session \<noteq> None \<and> (request_json = None \<or> request_json = Some JNull)
      \<longrightarrow> POST JSON_parse estimator session request_json
          = (\<lparr>status = 500, body = Text ''Error analyzing meal''\<rparr>, [])"
  proof
    assume a: "session \<noteq> None \<and> (request_json = None \<or> request_json = Some JNull)"
    then have s: "session \<noteq> None" by (rule conjunct1)
    from a have r: "request_json = None \<or> request_json = Some JNull" by (rule conjunct2)
    from POST_unreadable [OF s r]
    show "POST JSON_parse estimator session request_json
          = (\<lparr>status = 500, body = Text ''Error analyzing meal''\<rparr>, [])"
      by (simp only: error_response_def)
  qed
  have 3: "session \<noteq> None \<and> request_json = Some v \<and> v \<noteq> JNull
      \<longrightarrow> (\<exists>m. destructure_mealText v = Returns m
            \<and> (\<not> truthy m
               \<longrightarrow> POST JSON_parse estimator session request_json
                   = (\<lparr>status = 400, body = Text ''Meal text is required''\<rparr>, [])))"
  proof
    assume a: "session \<noteq> None \<and> request_json = Some v \<and> v \<noteq> JNull"
    then have s: "session \<noteq> None" by (rule conjunct1)
    from a have r: "request_json = Some v" by (rule conjunct2 [THEN conjunct1])
    from a have "v \<noteq> JNull" by (rule conjunct2 [THEN conjunct2])
    then obtain m where m: "destructure_mealText v = Returns m"
      using destructure_mealText_Returns by blast
    have "\<not> truthy m
           \<longrightarrow> POST JSON_parse estimator session request_json
               = (\<lparr>status = 400, body = Text ''Meal text is required''\<rparr>, [])"
    proof
      assume "\<not> truthy m"
      with s r m show "POST JSON_parse estimator session request_json
               = (\<lparr>status = 400, body = Text ''Meal text is required''\<rparr>, [])"
        by (rule POST_falsy)
    qed
    with m show "\<exists>m. destructure_mealText v = Returns m
            \<and> (\<not> truthy m
               \<longrightarrow> POST JSON_parse estimator session request_json
                   = (\<lparr>status = 400, body = Text ''Meal text is required''\<rparr>, []))"
      by (intro exI conjI)
  qed
  have 4: "session \<noteq> None \<and> request_json = Some (JObj members)
        \<and> (get_property members ''mealText'' = None
            \<or> get_property members ''mealText'' = Some (JStr []))
      \<longrightarrow> POST JSON_parse estimator session request_json
          = (\<lparr>status = 400, body = Text ''Meal text is required''\<rparr>, [])"
  proof
    assume a: "session \<noteq> None \<and> request_json = Some (JObj members)
        \<and> (get_property members ''mealText'' = None
            \<or> get_property members ''mealText'' = Some (JStr []))"
    show "POST JSON_parse estimator session request_json
          = (\<lparr>status = 400, body = Text ''Meal text is required''\<rparr>, [])"
      by (rule POST_bad_request) (use a in blast)+
  qed
  have 5: "snd (POST JSON_parse estimator session request_json) \<noteq> []
      \<longrightarrow> session \<noteq> None
          \<and> (\<exists>v mt. request_json = Some v \<and> destructure_mealText v = Returns (Some mt)
               \<and> truthy (Some mt)
               \<and> snd (POST JSON_parse estimator session request_json) = [mt])"
    by (rule impI) (rule POST_calls)
  show ?thesis by (rule conjI [OF 1 conjI [OF 2 conjI [OF 3 conjI [OF 4 5]]]])
qed

theorem analyze_meal_guards_by_body_witness:
  "POST (\<lambda>s. Some (JObj [])) (\<lambda>t. Content (Some ''{}'')) (Some ()) (Some JNull)
     = (\<lparr>status = 500, body = Text ''Error analyzing meal''\<rparr>, [])
   \<and> POST (\<lambda>s. Some (JObj [])) (\<lambda>t. Content (Some ''{}'')) (Some ())
        (Some (JObj [(''mealText'', JNum 0)]))
     = (\<lparr>status = 400, body = Text ''Meal text is required''\<rparr>, [])
   \<and> POST (\<lambda>s. Some (JObj [])) (\<lambda>t. Content (Some ''{}'')) (Some ())
        (Some (JObj [(''mealText'', JStr [])]))
     = (\<lparr>status = 400, body = Text ''Meal text is required''\<rparr>, [])
   \<and> snd (POST (\<lambda>s. Some (JObj [])) (\<lambda>t. Content (Some ''{}'')) (Some ())
             (Some (JObj [(''mealText'', JStr ''egg'')]))) = [JStr ''egg'']
   \<and> truthy (Some (JStr ''egg''))"
proof -
  let ?parse = "\<lambda>s :: string. Some (JObj [])"
  let ?est = "\<lambda>t :: json. Content (Some ''{}'')"
  note g = analyze_meal_guards_by_body [where JSON_parse = ?parse and estimator = ?est
      and session = "Some ()"]
  have n: "Some () \<noteq> None \<and> (Some JNull = None \<or> Some JNull = Some JNull)"
    by simp
  from g [where request_json = "Some JNull" and v = JNull and members = "[]",
      THEN conjunct2, THEN conjunct1] n
  have 0: "POST ?parse ?est (Some ()) (Some JNull)
     = (\<lparr>status = 500, body = Text ''Error analyzing meal''\<rparr>, [])" by (rule mp)
  let ?zero = "JObj [(''mealText'', JNum 0)]"
  have z: "Some () \<noteq> None \<and> Some ?zero = Some ?zero \<and> ?zero \<noteq> JNull"
    by simp
  from g [where request_json = "Some ?zero" and v = ?zero and members = "[]",
      THEN conjunct2, THEN conjunct2, THEN conjunct1] z
  have "\<exists>m. destructure_mealText ?zero = Returns m
            \<and> (\<not> truthy m
               \<longrightarrow> POST ?parse ?est (Some ()) (Some ?zero)
                   = (\<lparr>status = 400, body = Text ''Meal text is required''\<rparr>, []))"
    by (rule mp)
  then obtain m where dm: "destructure_mealText ?zero = Returns m"
    and fm: "\<not> truthy m
               \<longrightarrow> POST ?parse ?est (Some ()) (Some ?zero)
                   = (\<lparr>status = 400, body = Text ''Meal text is required''\<rparr>, [])"
    by (elim exE conjE)
  from dm have "m = Some (JNum 0)" by (simp add: destructure_mealText_def get_property_def)
  then have "\<not> truthy m" by (simp add: truthy_def)
  with fm have 1: "POST ?parse ?est (Some ()) (Some ?zero)
                   = (\<lparr>status = 400, body = Text ''Meal text is required''\<rparr>, [])"
    by (rule mp)
  have a: "Some () \<noteq> None \<and> Some (JObj [(''mealText'', JStr [])]) = Some (JObj [(''mealText'', JStr [])])
        \<and> (get_property [(''mealText'', JStr [])] ''mealText'' = None
            \<or> get_property [(''mealText'', JStr [])] ''mealText'' = Some (JStr []))"
    by (simp add: get_property_def)
  from g [where request_json = "Some (JObj [(''mealText'', JStr [])])"
      and members = "[(''mealText'', JStr [])]" and v = JNull,
      THEN conjunct2, THEN conjunct2, THEN conjunct2, THEN conjunct1] a
  have 2: "POST ?parse ?est (Some ()) (Some (JObj [(''mealText'', JStr [])]))
     = (\<lparr>status = 400, body = Text ''Meal text is required''\<rparr>, [])" by (rule mp)
  have c: "snd (POST ?parse ?est (Some ()) (Some (JObj [(''mealText'', JStr ''egg'')]))) \<noteq> []"
    by (simp add: POST_def destructure_mealText_def get_property_def truthy_def)
  from g [where request_json = "Some (JObj [(''mealText'', JStr ''egg'')])"
      and members = "[]" and v = JNull,
      THEN conjunct2, THEN conjunct2, THEN conjunct2, THEN conjunct2] c
  have "Some () \<noteq> None
          \<and> (\<exists>v mt. Some (JObj [(''mealText'', JStr ''egg'')]) = Some v
               \<and> destructure_mealText v = Returns (Some mt)
               \<and> truthy (Some mt)
               \<and> snd (POST ?parse ?est (Some ()) (Some (JObj [(''mealText'', JStr ''egg'')]))) = [mt])"
    by (rule mp)
  then obtain v mt where v: "Some (JObj [(''mealText'', JStr ''egg'')]) = Some v"
    and d: "destructure_mealText v = Returns (Some mt)"
    and t: "truthy (Some mt)"
    and c': "snd (POST ?parse ?est (Some ()) (Some (JObj [(''mealText'', JStr ''egg'')]))) = [mt]"
    by blast
  from v have "v = JObj [(''mealText'', JStr ''egg'')]" by simp
  with d have "mt = JStr ''egg''" by (simp add: destructure_mealText_def get_property_def)
  with t c' have 3: "snd (POST ?parse ?est (Some ()) (Some (JObj [(''mealText'', JStr ''egg'')])))
                = [JStr ''egg''] \<and> truthy (Some (JStr ''egg''))"
    by (simp only:)
  show ?thesis by (rule conjI [OF 0 conjI [OF 1 conjI [OF 2 3]]])
qed

section \<open>Properties of meal logging\<close>

lemma not_ok_error_response: "\<not> ok error_response"
  by (simp add: ok_def error_response_def)

lemma POST_estimation_fails:
  assumes "estimation_fails JSON_parse (estimator (JStr mealText))"
  shows "\<not> ok (fst (POST JSON_parse estimator session
                      (Some (JObj [(''mealText'', JStr mealText)]))))"
proof (cases session)
  case None
  then show ?thesis by (simp add: POST_def ok_def)
next
  case (Some s)
  show ?thesis
  proof (cases "mealText = []")
    case True
    with Some show ?thesis
      by (simp add: POST_def destructure_mealText_def get_property_def truthy_def ok_def)
  next
    case False
    with Some have "fst (POST JSON_parse estimator session
                      (Some (JObj [(''mealText'', JStr mealText)]))) = error_response"
      using assms
      by (auto simp: POST_def destructure_mealText_def get_property_def truthy_def
          estimation_fails_def split: completion.splits option.splits)
    then show ?thesis by (simp only: not_ok_error_response not_False_eq_True)
  qed
qed

lemma handleMealSubmit_not_ok:
  assumes "fetch (JObj [(''mealText'', JStr mealText)]) = Some response" and "\<not> ok response"
  shows "handleMealSubmit JSON_parse db_accepts fetch user mealText = failed_submit mealText"
  using assms by (cases user) (simp_all add: handleMealSubmit_def)

lemma handleMealSubmit_no_response:
  assumes "fetch (JObj [(''mealText'', JStr mealText)]) = None"
  shows "handleMealSubmit JSON_parse db_accepts fetch user mealText = failed_submit mealText"
  using assms by (cases user) (simp_all add: handleMealSubmit_def)

lemma POST_ok:
  assumes "ok (fst (POST JSON_parse estimator session (Some v)))"
  shows "\<exists>mt response nutritionData.
           destructure_mealText v = Returns (Some mt) \<and> truthy (Some mt)
           \<and> estimator mt = Content (Some response) \<and> response \<noteq> []
           \<and> JSON_parse response = Some nutritionData
           \<and> fst (POST JSON_parse estimator session (Some v))
               = \<lparr>status = 200, body = Json nutritionData\<rparr>"
proof (cases session)
  case None
  with assms show ?thesis by (simp add: POST_def ok_def)
next
  case (Some s)
  show ?thesis
  proof (cases "destructure_mealText v")
    case Throws
    with assms Some show ?thesis by (simp add: POST_def not_ok_error_response)
  next
    case (Returns m)
    show ?thesis
    proof (cases "truthy m")
      case False
      with assms Some Returns show ?thesis by (simp add: POST_def ok_def)
    next
      case True
      then obtain mt where m: "m = Some mt" by (cases m) (simp_all add: truthy_def)
      show ?thesis
      proof (cases "estimator mt")
        case Rejected
        with assms Some Returns True m show ?thesis by (simp add: POST_def not_ok_error_response)
      next
        case (Content c)
        show ?thesis
        proof (cases c)
          case None
          with assms Some Returns True m Content show ?thesis
            by (simp add: POST_def not_ok_error_response)
        next
          case r: (Some response)
          show ?thesis
          proof (cases "response = []")
            case True
            with assms Some Returns \<open>truthy m\<close> m Content r show ?thesis
              by (simp add: POST_def not_ok_error_response)
          next
            case False
            show ?thesis
            proof (cases "JSON_parse response")
              case None
              with assms Some Returns \<open>truthy m\<close> m Content r False show ?thesis
                by (simp add: POST_def not_ok_error_response)
            next
              case (Some nutritionData)
              with \<open>session = Some s\<close> Returns \<open>truthy m\<close> m Content r False show ?thesis
                by (simp add: POST_def)
            qed
          qed
        qed
      qed
    qed
  qed
qed

lemma get_property_append:
  assumes "k \<in> fst ` set ys"
  shows "get_property (xs @ ys) k = get_property ys k"
proof -
  from assms have "k \<in> fst ` set (rev ys)" by simp
  then have "k \<in> dom (map_of (rev ys))" by (simp only: dom_map_of_conv_image_fst)
  then show ?thesis by (auto simp: get_property_def map_add_def split: option.split)
qed

lemma handleMealSubmit_inserted:
  assumes "inserted (handleMealSubmit JSON_parse db_accepts
                       (analyze_meal JSON_parse estimator session) user mealText) = Some row"
  shows "\<exists>response nutritionData user_id.
           estimator (JStr mealText) = Content (Some response) \<and> response \<noteq> []
           \<and> JSON_parse response = Some nutritionData \<and> user = Some user_id
           \<and> row = [(''user_id'', JStr user_id), (''meal_text'', JStr mealText)]
                    @ object_spread nutritionData"
proof -
  let ?v = "JObj [(''mealText'', JStr mealText)]"
  let ?r = "fst (POST JSON_parse estimator session (Some ?v))"
  from assms obtain user_id where u: "user = Some user_id"
    by (cases user) (simp_all add: handleMealSubmit_def failed_submit_def)
  have okr: "ok ?r"
  proof (rule ccontr)
    assume "\<not> ok ?r"
    with assms u show False
      by (simp add: handleMealSubmit_def analyze_meal_def failed_submit_def)
  qed
  from POST_ok [OF this] obtain mt response nutritionData where
    d: "destructure_mealText ?v = Returns (Some mt)"
    and e: "estimator mt = Content (Some response)" and ne: "response \<noteq> []"
    and p: "JSON_parse response = Some nutritionData"
    and r: "?r = \<lparr>status = 200, body = Json nutritionData\<rparr>"
    by blast
  from d have mt: "mt = JStr mealText"
    by (simp add: destructure_mealText_def get_property_def)
  have "row = [(''user_id'', JStr user_id), (''meal_text'', JStr mealText)]
              @ object_spread nutritionData"
    using assms u okr r
    by (simp add: handleMealSubmit_def analyze_meal_def response_json_def failed_submit_def
        Let_def split: if_splits)
  with e ne p u mt show ?thesis by simp
qed

text \<open>
  Claim C7. When the estimation fails, and whenever the response is not ok or the request
  itself fails, the dashboard writes no meal entry and shows its error message. When it
  writes a meal entry, the provider has returned content that parsed, and the row is the
  user's id and the meal text followed by the properties of the parsed nutrition data,
  each readable from the row with the value the provider gave.
\<close>

theorem estimation_failure_aborts_logging:
  "(estimation_fails JSON_parse (estimator (JStr mealText)) \<longrightarrow>
      inserted (handleMealSubmit JSON_parse db_accepts
                  (analyze_meal JSON_parse estimator session) user mealText) = None
      \<and> shown_error (handleMealSubmit JSON_parse db_accepts
                  (analyze_meal JSON_parse estimator session) user mealText)
          = Some ''Failed to log meal. Please try again.'')
   \<and> (fetch (JObj [(''mealText'', JStr mealText)]) = Some response \<and> \<not> ok response \<longrightarrow>
      inserted (handleMealSubmit JSON_parse db_accepts fetch user mealText) = None
      \<and> shown_error (handleMealSubmit JSON_parse db_accepts fetch user mealText)
          = Some ''Failed to log meal. Please try again.'')
   \<and> (inserted (handleMealSubmit JSON_parse db_accepts
                  (analyze_meal JSON_parse estimator session) user mealText) = Some row \<longrightarrow>
      (\<exists>content nutritionData user_id.
          estimator (JStr mealText) = Content (Some content) \<and> content \<noteq> []
          \<and> JSON_parse content = Some nutritionData \<and> user = Some user_id
          \<and> row = [(''user_id'', JStr user_id), (''meal_text'', JStr mealText)]
                   @ object_spread nutritionData
          \<and> (\<forall>k \<in> fst ` set (object_spread nutritionData).
                get_property row k = get_property (object_spread nutritionData) k)))
   \<and> (fetch (JObj [(''mealText'', JStr mealText)]) = None \<longrightarrow>
      inserted (handleMealSubmit JSON_parse db_accepts fetch user mealText) = None
      \<and> shown_error (handleMealSubmit JSON_parse db_accepts fetch user mealText)
          = Some ''Failed to log meal. Please try again.'')"
proof -
  let ?fetch = "analyze_meal JSON_parse estimator session"
  have 1: "estimation_fails JSON_parse (estimator (JStr mealText)) \<longrightarrow>
      inserted (handleMealSubmit JSON_parse db_accepts ?fetch user mealText) = None
      \<and> shown_error (handleMealSubmit JSON_parse db_accepts ?fetch user mealText)
          = Some ''Failed to log meal. Please try again.''"
  proof
    assume "estimation_fails JSON_parse (estimator (JStr mealText))"
    from POST_estimation_fails
      [where JSON_parse = JSON_parse and estimator = estimator and mealText = mealText
        and session = session, OF this]
    have "handleMealSubmit JSON_parse db_accepts ?fetch user mealText = failed_submit mealText"
      by (intro handleMealSubmit_not_ok) (simp_all add: analyze_meal_def)
    then show "inserted (handleMealSubmit JSON_parse db_accepts ?fetch user mealText) = None
      \<and> shown_error (handleMealSubmit JSON_parse db_accepts ?fetch user mealText)
          = Some ''Failed to log meal. Please try again.''"
      by (simp add: failed_submit_def)
  qed
  have 2: "fetch (JObj [(''mealText'', JStr mealText)]) = Some response \<and> \<not> ok response \<longrightarrow>
      inserted (handleMealSubmit JSON_parse db_accepts fetch user mealText) = None
      \<and> shown_error (handleMealSubmit JSON_parse db_accepts fetch user mealText)
          = Some ''Failed to log meal. Please try again.''"
  proof
    assume a: "fetch (JObj [(''mealText'', JStr mealText)]) = Some response \<and> \<not> ok response"
    then have "handleMealSubmit JSON_parse db_accepts fetch user mealText = failed_submit mealText"
      by (intro handleMealSubmit_not_ok) blast+
    then show "inserted (handleMealSubmit JSON_parse db_accepts fetch user mealText) = None
      \<and> shown_error (handleMealSubmit JSON_parse db_accepts fetch user mealText)
          = Some ''Failed to log meal. Please try again.''"
      by (simp add: failed_submit_def)
  qed
  have 3: "inserted (handleMealSubmit JSON_parse db_accepts ?fetch user mealText) = Some row \<longrightarrow>
      (\<exists>content nutritionData user_id.
          estimator (JStr mealText) = Content (Some content) \<and> content \<noteq> []
          \<and> JSON_parse content = Some nutritionData \<and> user = Some user_id
          \<and> row = [(''user_id'', JStr user_id), (''meal_text'', JStr mealText)]
                   @ object_spread nutritionData
          \<and> (\<forall>k \<in> fst ` set (object_spread nutritionData).
                get_property row k = get_property (object_spread nutritionData) k))"
  proof
    assume "inserted (handleMealSubmit JSON_parse db_accepts ?fetch user mealText) = Some row"
    from handleMealSubmit_inserted [OF this]
    obtain content nutritionData user_id where
      f: "estimator (JStr mealText) = Content (Some content)" "content \<noteq> []"
        "JSON_parse content = Some nutritionData" "user = Some user_id"
      and row: "row = [(''user_id'', JStr user_id), (''meal_text'', JStr mealText)]
                   @ object_spread nutritionData"
      by blast
    have "\<forall>k \<in> fst ` set (object_spread nutritionData).
                get_property row k = get_property (object_spread nutritionData) k"
      unfolding row by (intro ballI get_property_append)
    with f row show "\<exists>content nutritionData user_id.
          estimator (JStr mealText) = Content (Some content) \<and> content \<noteq> []
          \<and> JSON_parse content = Some nutritionData \<and> user = Some user_id
          \<and> row = [(''user_id'', JStr user_id), (''meal_text'', JStr mealText)]
                   @ object_spread nutritionData
          \<and> (\<forall>k \<in> fst ` set (object_spread nutritionData).
                get_property row k = get_property (object_spread nutritionData) k)"
      by blast
  qed
  have 4: "fetch (JObj [(''mealText'', JStr mealText)]) = None \<longrightarrow>
      inserted (handleMealSubmit JSON_parse db_accepts fetch user mealText) = None
      \<and> shown_error (handleMealSubmit JSON_parse db_accepts fetch user mealText)
          = Some ''Failed to log meal. Please try again.''"
  proof
    assume "fetch (JObj [(''mealText'', JStr mealText)]) = None"
    then have "handleMealSubmit JSON_parse db_accepts fetch user mealText = failed_submit mealText"
      by (rule handleMealSubmit_no_response)
    then show "inserted (handleMealSubmit JSON_parse db_accepts fetch user mealText) = None
      \<and> shown_error (handleMealSubmit JSON_parse db_accepts fetch user mealText)
          = Some ''Failed to log meal. Please try again.''"
      by (simp add: failed_submit_def)
  qed
  show ?thesis by (rule conjI [OF 1 conjI [OF 2 conjI [OF 3 4]]])
qed

theorem estimation_failure_aborts_logging_witness:
  "inserted (handleMealSubmit (\<lambda>s. Some (JObj [(''calories'', JNum 100)])) (\<lambda>row. True)
       (analyze_meal (\<lambda>s. Some (JObj [(''calories'', JNum 100)])) (\<lambda>t. Rejected) (Some ()))
       (Some ''u'') ''egg'') = None
   \<and> shown_error (handleMealSubmit (\<lambda>s. Some (JObj [(''calories'', JNum 100)])) (\<lambda>row. True)
       (analyze_meal (\<lambda>s. Some (JObj [(''calories'', JNum 100)])) (\<lambda>t. Rejected) (Some ()))
       (Some ''u'') ''egg'') = Some ''Failed to log meal. Please try again.''
   \<and> inserted (handleMealSubmit (\<lambda>s. Some (JObj [(''calories'', JNum 100)])) (\<lambda>row. True)
       (\<lambda>b. Some \<lparr>status = 500, body = Text ''Error analyzing meal''\<rparr>)
       (Some ''u'') ''egg'') = None
   \<and> inserted (handleMealSubmit (\<lambda>s. Some (JObj [(''calories'', JNum 100)])) (\<lambda>row. True)
       (analyze_meal (\<lambda>s. Some (JObj [(''calories'', JNum 100)]))
          (\<lambda>t. Content (Some ''{}'')) (Some ()))
       (Some ''u'') ''egg'')
     = Some [(''user_id'', JStr ''u''), (''meal_text'', JStr ''egg''), (''calories'', JNum 100)]
   \<and> get_property
         [(''user_id'', JStr ''u''), (''meal_text'', JStr ''egg''), (''calories'', JNum 100)]
         ''calories'' = Some (JNum 100)"
proof -
  let ?parse = "\<lambda>s :: string. Some (JObj [(''calories'', JNum 100)])"
  let ?acc = "\<lambda>row :: js_object. True"
  let ?row = "[(''user_id'', JStr ''u''), (''meal_text'', JStr ''egg''), (''calories'', JNum 100)]"
  note t = estimation_failure_aborts_logging
    [where JSON_parse = ?parse and db_accepts = ?acc and user = "Some ''u''"
      and mealText = "''egg''" and session = "Some ()"]
  have a: "estimation_fails ?parse ((\<lambda>t. Rejected) (JStr ''egg''))"
    by (simp add: estimation_fails_def)
  from t [where estimator = "\<lambda>t. Rejected", THEN conjunct1] a
  have 1: "inserted (handleMealSubmit ?parse ?acc
              (analyze_meal ?parse (\<lambda>t. Rejected) (Some ())) (Some ''u'') ''egg'') = None
      \<and> shown_error (handleMealSubmit ?parse ?acc
              (analyze_meal ?parse (\<lambda>t. Rejected) (Some ())) (Some ''u'') ''egg'')
          = Some ''Failed to log meal. Please try again.''"
    by (rule mp)
  have b: "(\<lambda>b. Some \<lparr>status = 500, body = Text ''Error analyzing meal''\<rparr>)
             (JObj [(''mealText'', JStr ''egg'')])
           = Some \<lparr>status = 500, body = Text ''Error analyzing meal''\<rparr>
        \<and> \<not> ok \<lparr>status = 500, body = Text ''Error analyzing meal''\<rparr>"
    by (simp add: ok_def)
  from t [where fetch = "\<lambda>b. Some \<lparr>status = 500, body = Text ''Error analyzing meal''\<rparr>"
      and response = "\<lparr>status = 500, body = Text ''Error analyzing meal''\<rparr>",
      THEN conjunct2, THEN conjunct1] b
  have 2: "inserted (handleMealSubmit ?parse ?acc
              (\<lambda>b. Some \<lparr>status = 500, body = Text ''Error analyzing meal''\<rparr>)
              (Some ''u'') ''egg'') = None
      \<and> shown_error (handleMealSubmit ?parse ?acc
              (\<lambda>b. Some \<lparr>status = 500, body = Text ''Error analyzing meal''\<rparr>)
              (Some ''u'') ''egg'') = Some ''Failed to log meal. Please try again.''"
    by (rule mp)
  have c: "inserted (handleMealSubmit ?parse ?acc
              (analyze_meal ?parse (\<lambda>t. Content (Some ''{}'')) (Some ())) (Some ''u'') ''egg'')
           = Some ?row"
    by (simp add: handleMealSubmit_def analyze_meal_def POST_def destructure_mealText_def
        get_property_def truthy_def ok_def response_json_def object_spread_def)
  from t [where estimator = "\<lambda>t. Content (Some ''{}'')" and row = ?row,
      THEN conjunct2, THEN conjunct2, THEN conjunct1] c
  have "\<exists>content nutritionData user_id.
          (\<lambda>t. Content (Some ''{}'')) (JStr ''egg'') = Content (Some content) \<and> content \<noteq> []
          \<and> ?parse content = Some nutritionData \<and> Some ''u'' = Some user_id
          \<and> ?row = [(''user_id'', JStr user_id), (''meal_text'', JStr ''egg'')]
                   @ object_spread nutritionData
          \<and> (\<forall>k \<in> fst ` set (object_spread nutritionData).
                get_property ?row k = get_property (object_spread nutritionData) k)"
    by (rule mp)
  then obtain nutritionData where n: "Some (JObj [(''calories'', JNum 100)]) = Some nutritionData"
    and k: "\<forall>k \<in> fst ` set (object_spread nutritionData).
                get_property ?row k = get_property (object_spread nutritionData) k"
    by blast
  from n have n': "nutritionData = JObj [(''calories'', JNum 100)]" by simp
  have "''calories'' \<in> fst ` set (object_spread nutritionData)"
    by (simp add: n' object_spread_def)
  with k have "get_property ?row ''calories'' = get_property (object_spread nutritionData) ''calories''"
    by (rule bspec)
  then have 3: "get_property ?row ''calories'' = Some (JNum 100)"
    by (simp add: n' object_spread_def get_property_def)
  from 1 2 c 3 show ?thesis by (simp only: simp_thms)
qed

section \<open>Properties of the achievement trigger\<close>

lemma titles_differ:
  "first_meal u now \<noteq> ten_meals u' now'" "first_meal u now \<noteq> week_streak u' now'"
  "first_meal u now \<noteq> weight_loss_5kg u' now'" "ten_meals u now \<noteq> week_streak u' now'"
  "ten_meals u now \<noteq> weight_loss_5kg u' now'" "week_streak u now \<noteq> weight_loss_5kg u' now'"
  by (simp_all add: first_meal_def ten_meals_def week_streak_def weight_loss_5kg_def)

lemma weight_loss_awarded_iff:
  "weight_loss_5kg u now \<in> set (awarded date_trunc_day now u db)
   \<longleftrightarrow> weight_loss_condition (first_weight u db) (latest_weight u db)"
  using titles_differ [of u now u now] by (auto simp: awarded_def)

lemma week_streak_awarded_iff:
  "week_streak u now \<in> set (awarded date_trunc_day now u db)
   \<longleftrightarrow> total_days date_trunc_day u db = 7"
  using titles_differ [of u now u now] by (auto simp: awarded_def)

lemma first_meal_awarded_iff:
  "first_meal u now \<in> set (awarded date_trunc_day now u db) \<longleftrightarrow> total_meals u db = 1"
  using titles_differ [of u now u now] by (auto simp: awarded_def)

lemma sort_key_not_Nil:
  assumes "xs \<noteq> []"
  shows "sort_key f xs \<noteq> []"
proof
  assume "sort_key f xs = []"
  then have "length (sort_key f xs) = 0" by simp
  then have "length xs = 0" by simp
  with assms show False by simp
qed

lemma sort_key_hd_least:
  assumes "xs \<noteq> []"
  shows "hd (sort_key f xs) \<in> set xs \<and> (\<forall>x \<in> set xs. f (hd (sort_key f xs)) \<le> f x)"
proof -
  let ?s = "sort_key f xs"
  from sort_key_not_Nil [OF assms, where f = f] obtain y ys where s: "?s = y # ys"
    by (cases ?s) simp_all
  have "sorted (map f ?s)" by (rule sorted_sort_key)
  with s have le: "\<forall>x \<in> set ys. f y \<le> f x" by simp
  have "set xs = set ?s" by simp
  also have "\<dots> = insert y (set ys)" by (simp add: s)
  finally have xs: "set xs = insert y (set ys)" .
  have "hd ?s = y" by (simp add: s)
  with xs le show ?thesis by auto
qed

lemma sort_key_last_greatest:
  assumes "xs \<noteq> []"
  shows "last (sort_key f xs) \<in> set xs \<and> (\<forall>x \<in> set xs. f x \<le> f (last (sort_key f xs)))"
proof -
  let ?s = "sort_key f xs"
  from sort_key_not_Nil [OF assms, where f = f] obtain ys y where s: "?s = ys @ [y]"
    by (cases ?s rule: rev_cases) simp_all
  have "sorted (map f ?s)" by (rule sorted_sort_key)
  with s have le: "\<forall>x \<in> set ys. f x \<le> f y" by (simp add: sorted_append)
  have "set xs = set ?s" by simp
  also have "\<dots> = insert y (set ys)" by (simp add: s)
  finally have xs: "set xs = insert y (set ys)" .
  have "last ?s = y" by (simp add: s)
  with xs le show ?thesis by auto
qed

lemma first_weight_earliest:
  assumes "filter (\<lambda>w. user_id w = u) (weight_entries db) \<noteq> []"
  shows "\<exists>e \<in> set (filter (\<lambda>w. user_id w = u) (weight_entries db)).
           (\<forall>x \<in> set (filter (\<lambda>w. user_id w = u) (weight_entries db)).
              created_at e \<le> created_at x)
           \<and> first_weight u db = Some (entry_weight e)"
proof -
  let ?ws = "filter (\<lambda>w. user_id w = u) (weight_entries db)"
  let ?s = "sort_key created_at ?ws"
  from sort_key_not_Nil [OF assms, where f = created_at] obtain y ys where s: "?s = y # ys"
    by (cases ?s) simp_all
  then have "first_weight u db = Some (entry_weight (hd ?s))"
    by (simp add: first_weight_def)
  with sort_key_hd_least [OF assms, of created_at] show ?thesis by blast
qed

lemma latest_weight_latest:
  assumes "filter (\<lambda>w. user_id w = u) (weight_entries db) \<noteq> []"
  shows "\<exists>e \<in> set (filter (\<lambda>w. user_id w = u) (weight_entries db)).
           (\<forall>x \<in> set (filter (\<lambda>w. user_id w = u) (weight_entries db)).
              created_at x \<le> created_at e)
           \<and> latest_weight u db = Some (entry_weight e)"
proof -
  let ?ws = "filter (\<lambda>w. user_id w = u) (weight_entries db)"
  let ?s = "sort_key created_at ?ws"
  from sort_key_not_Nil [OF assms, where f = created_at] obtain ys y where s: "?s = ys @ [y]"
    by (cases ?s rule: rev_cases) simp_all
  then have "latest_weight u db = Some (entry_weight (last ?s))"
    by (simp add: latest_weight_def)
  with sort_key_last_greatest [OF assms, of created_at] show ?thesis by blast
qed

lemma first_meal_rows_awarded:
  "length (filter (\<lambda>a. user_id a = u \<and> title a = ''First Meal'')
            (awarded date_trunc_day now u' db))
   = (if u' = u \<and> total_meals u' db = 1 then 1 else 0)"
  by (simp add: awarded_def first_meal_def ten_meals_def week_streak_def weight_loss_5kg_def)

lemma visible_bypass: "visible Service_role db = db"
  by (simp add: visible_def bypasses_rls_def)

lemma check_and_award_bypass:
  "check_and_award_achievements Service_role date_trunc_day now u db
   = Inr (db\<lparr>achievements := achievements db @ awarded date_trunc_day now u db\<rparr>)"
  by (simp add: check_and_award_achievements_def visible_bypass bypasses_rls_def)

lemma check_and_award_rls:
  assumes "\<not> bypasses_rls r"
    and "check_and_award_achievements r date_trunc_day now u db = Inr db'"
  shows "db' = db"
  using assms by (auto simp: check_and_award_achievements_def Let_def split: if_splits)

lemma total_meals_visible_own:
  "total_meals u (visible (Authenticated u) db) = total_meals u db"
proof -
  have "(\<lambda>m :: meal_entry. Some u = Some (user_id m) \<and> user_id m = u) = (\<lambda>m. user_id m = u)"
    by auto
  then have "filter (\<lambda>m. user_id m = u) (filter (\<lambda>m. Some u = Some (user_id m)) ms)
        = filter (\<lambda>m. user_id m = u) ms" for ms :: "meal_entry list"
    by (simp only: filter_filter)
  then show ?thesis
    by (simp add: visible_def bypasses_rls_def auth_uid_def total_meals_def)
qed

lemma insert_row_rls_achievements:
  assumes "\<not> bypasses_rls r" and "insert_row date_trunc_day r e db = Inr db'"
  shows "achievements db' = achievements db"
proof (cases e)
  case (Insert_meal now u mtext c p cb f)
  let ?db = "db\<lparr>meal_entries := meal_entries db @
                [\<lparr>user_id = u, created_at = now, meal_text = mtext, calories = c,
                  protein = p, carbs = cb, fat = f\<rparr>]\<rparr>"
  from assms(2) have "check_and_award_achievements r date_trunc_day now u ?db = Inr db'"
    by (simp add: Insert_meal split: if_splits)
  with assms(1) have "db' = ?db" by (rule check_and_award_rls)
  then show ?thesis by simp
next
  case (Insert_weight now u w)
  let ?db = "db\<lparr>weight_entries := weight_entries db @
                [\<lparr>user_id = u, created_at = now, entry_weight = w\<rparr>]\<rparr>"
  from assms(2) have "check_and_award_achievements r date_trunc_day now u ?db = Inr db'"
    by (simp add: Insert_weight split: if_splits)
  with assms(1) have "db' = ?db" by (rule check_and_award_rls)
  then show ?thesis by simp
qed

lemma run_rls_achievements:
  assumes "\<forall>s \<in> set stmts. \<not> bypasses_rls (fst s)"
  shows "achievements (run date_trunc_day stmts db) = achievements db"
  using assms
proof (induction stmts arbitrary: db)
  case Nil
  then show ?case by simp
next
  case (Cons s stmts)
  obtain r e where s: "s = (r, e)" by (cases s)
  from Cons.prems s have r: "\<not> bypasses_rls r" by simp
  from Cons.prems have rest: "\<forall>s \<in> set stmts. \<not> bypasses_rls (fst s)" by simp
  show ?case
  proof (cases "insert_row date_trunc_day r e db")
    case (Inl err)
    with Cons.IH [OF rest] show ?thesis by (simp add: s)
  next
    case (Inr db')
    from insert_row_rls_achievements [OF r Inr] have "achievements db' = achievements db" .
    with Cons.IH [OF rest, of db'] Inr show ?thesis by (simp add: s)
  qed
qed

lemma first_meal_refused_for_application:
  assumes "total_meals u db = 0" and "0 \<le> c" and "0 \<le> p" and "0 \<le> cb" and "0 \<le> f"
  shows "insert_row date_trunc_day (Authenticated u) (Insert_meal now u mtext c p cb f) db
         = Inl Rls_violation"
proof -
  let ?db = "db\<lparr>meal_entries := meal_entries db @
                [\<lparr>user_id = u, created_at = now, meal_text = mtext, calories = c,
                  protein = p, carbs = cb, fat = f\<rparr>]\<rparr>"
  have "total_meals u ?db = 1" using assms(1) by (simp add: total_meals_def)
  then have "total_meals u (visible (Authenticated u) ?db) = 1"
    by (simp only: total_meals_visible_own)
  then have "first_meal u now
      \<in> set (awarded date_trunc_day now u (visible (Authenticated u) ?db))"
    by (simp only: first_meal_awarded_iff)
  then have "awarded date_trunc_day now u (visible (Authenticated u) ?db) \<noteq> []" by auto
  then have "check_and_award_achievements (Authenticated u) date_trunc_day now u ?db
             = Inl Rls_violation"
    by (simp add: check_and_award_achievements_def bypasses_rls_def)
  with assms(2-5) show ?thesis
    by (simp add: may_insert_own_def auth_uid_def)
qed

lemma first_meal_step:
  assumes inv: "achievement_count u ''First Meal'' db = (if 1 \<le> total_meals u db then 1 else 0)"
    and meal: "is_meal_insertion e"
    and ins: "insert_row date_trunc_day Service_role e db = Inr db'"
  shows "achievement_count u ''First Meal'' db' = (if 1 \<le> total_meals u db' then 1 else 0)"
proof (cases e)
  case (Insert_meal now u' mtext c p cb f)
  let ?m = "\<lparr>user_id = u', created_at = now, meal_text = mtext, calories = c, protein = p,
             carbs = cb, fat = f\<rparr>"
  let ?db = "db\<lparr>meal_entries := meal_entries db @ [?m]\<rparr>"
  from ins have "check_and_award_achievements Service_role date_trunc_day now u' ?db = Inr db'"
    by (simp add: Insert_meal split: if_splits)
  then have db': "db' = ?db\<lparr>achievements := achievements ?db @ awarded date_trunc_day now u' ?db\<rparr>"
    by (simp add: check_and_award_bypass)
  have t: "total_meals u db' = total_meals u db + (if u' = u then 1 else 0)"
    unfolding db' by (simp add: total_meals_def)
  have t': "total_meals u' ?db = total_meals u' db + 1"
    by (simp add: total_meals_def)
  have "achievement_count u ''First Meal'' db'
        = achievement_count u ''First Meal'' db
          + (if u' = u \<and> total_meals u' ?db = 1 then 1 else 0)"
    unfolding db'
    by (simp add: achievement_count_def first_meal_rows_awarded del: One_nat_def)
  with inv t t' show ?thesis by (auto split: if_splits)
next
  case (Insert_weight now u' w)
  with meal show ?thesis by simp
qed

lemma first_meal_once_by_meal_insertions:
  assumes "\<forall>s \<in> set stmts. fst s = Service_role \<and> is_meal_insertion (snd s)"
    and "achievement_count u ''First Meal'' db = (if 1 \<le> total_meals u db then 1 else 0)"
  shows "achievement_count u ''First Meal'' (run date_trunc_day stmts db)
         = (if 1 \<le> total_meals u (run date_trunc_day stmts db) then 1 else 0)"
  using assms
proof (induction stmts arbitrary: db)
  case Nil
  then show ?case by simp
next
  case (Cons s stmts)
  obtain r e where s: "s = (r, e)" by (cases s)
  from Cons.prems s have r: "r = Service_role" and e: "is_meal_insertion e" by simp_all
  from Cons.prems have rest: "\<forall>s \<in> set stmts. fst s = Service_role \<and> is_meal_insertion (snd s)"
    by simp
  show ?case
  proof (cases "insert_row date_trunc_day r e db")
    case (Inl err)
    with Cons.IH [OF rest Cons.prems(2)] show ?thesis by (simp add: s)
  next
    case (Inr db')
    then have "insert_row date_trunc_day Service_role e db = Inr db'" by (simp only: r)
    from first_meal_step [OF Cons.prems(2) e this]
    have "achievement_count u ''First Meal'' db' = (if 1 \<le> total_meals u db' then 1 else 0)" .
    from Cons.IH [OF rest this] Inr show ?thesis by (simp add: s)
  qed
qed

lemma first_meal_again_on_weight:
  assumes "total_meals u db = 1" and "30 \<le> w" and "w \<le> 300"
  shows "\<exists>db'. insert_row date_trunc_day Service_role (Insert_weight now u w) db = Inr db'
           \<and> first_meal u now \<in> set (achievements db')"
proof -
  let ?db = "db\<lparr>weight_entries := weight_entries db @
          [\<lparr>user_id = u, created_at = now, entry_weight = w\<rparr>]\<rparr>"
  have "total_meals u ?db = 1"
    using assms(1) by (simp add: total_meals_def)
  then have "first_meal u now \<in> set (awarded date_trunc_day now u ?db)"
    by (simp only: first_meal_awarded_iff)
  with assms(2,3) show ?thesis
    by (simp add: check_and_award_bypass may_insert_own_def bypasses_rls_def)
qed

lemma weight_loss_example_qualifies:
  "weight_loss_5kg ''u'' now \<in> set (awarded date_trunc_day now ''u''
      \<lparr>meal_entries = [],
       weight_entries =
         [\<lparr>user_id = ''u'', created_at = 1 * 86400000000, entry_weight = 80\<rparr>,
          \<lparr>user_id = ''u'', created_at = 5 * 86400000000, entry_weight = 77\<rparr>,
          \<lparr>user_id = ''u'', created_at = 10 * 86400000000, entry_weight = 749 / 10\<rparr>],
       achievements = []\<rparr>)"
  unfolding weight_loss_awarded_iff
  by (simp add: first_weight_def latest_weight_def weight_loss_condition_def)

lemma weight_loss_example_fails:
  "weight_loss_5kg ''u'' now \<notin> set (awarded date_trunc_day now ''u''
      \<lparr>meal_entries = [],
       weight_entries =
         [\<lparr>user_id = ''u'', created_at = 1 * 86400000000, entry_weight = 80\<rparr>,
          \<lparr>user_id = ''u'', created_at = 5 * 86400000000, entry_weight = 77\<rparr>,
          \<lparr>user_id = ''u'', created_at = 10 * 86400000000, entry_weight = 76\<rparr>],
       achievements = []\<rparr>)"
  unfolding weight_loss_awarded_iff
  by (simp add: first_weight_def latest_weight_def weight_loss_condition_def)

lemma weight_loss_general:
  assumes "filter (\<lambda>w. user_id w = u) (weight_entries db) \<noteq> []"
  shows "\<exists>e_first e_latest.
       e_first \<in> set (filter (\<lambda>w. user_id w = u) (weight_entries db))
     \<and> e_latest \<in> set (filter (\<lambda>w. user_id w = u) (weight_entries db))
     \<and> (\<forall>x \<in> set (filter (\<lambda>w. user_id w = u) (weight_entries db)).
           created_at e_first \<le> created_at x \<and> created_at x \<le> created_at e_latest)
     \<and> first_weight u db = Some (entry_weight e_first)
     \<and> latest_weight u db = Some (entry_weight e_latest)
     \<and> (weight_loss_5kg u now \<in> set (awarded date_trunc_day now u db)
          \<longleftrightarrow> entry_weight e_first > entry_weight e_latest
              \<and> entry_weight e_first - entry_weight e_latest \<ge> 5)"
proof -
  let ?ws = "filter (\<lambda>w. user_id w = u) (weight_entries db)"
  from first_weight_earliest [OF assms] obtain f where
    f: "f \<in> set ?ws" "\<forall>x \<in> set ?ws. created_at f \<le> created_at x"
      "first_weight u db = Some (entry_weight f)" by blast
  from latest_weight_latest [OF assms] obtain l where
    l: "l \<in> set ?ws" "\<forall>x \<in> set ?ws. created_at x \<le> created_at l"
      "latest_weight u db = Some (entry_weight l)" by blast
  have "weight_loss_5kg u now \<in> set (awarded date_trunc_day now u db)
          \<longleftrightarrow> entry_weight f > entry_weight l \<and> entry_weight f - entry_weight l \<ge> 5"
    unfolding weight_loss_awarded_iff by (simp add: f(3) l(3) weight_loss_condition_def)
  with f l show ?thesis by blast
qed

text \<open>
  Claim C5. For an owner with at least one weight entry, the trigger function reads the
  weight of an earliest and of a latest entry, and awards \<open>weight_loss_5kg\<close> exactly when
  the first exceeds the latest and by at least 5. The history 80, 77, 74.9 qualifies; the
  history 80, 77, 76 does not.
\<close>

theorem weight_loss_rule:
  "(filter (\<lambda>w. user_id w = u) (weight_entries db) \<noteq> [] \<longrightarrow>
     (\<exists>e_first e_latest.
         e_first \<in> set (filter (\<lambda>w. user_id w = u) (weight_entries db))
       \<and> e_latest \<in> set (filter (\<lambda>w. user_id w = u) (weight_entries db))
       \<and> (\<forall>x \<in> set (filter (\<lambda>w. user_id w = u) (weight_entries db)).
             created_at e_first \<le> created_at x \<and> created_at x \<le> created_at e_latest)
       \<and> first_weight u db = Some (entry_weight e_first)
       \<and> latest_weight u db = Some (entry_weight e_latest)
       \<and> (weight_loss_5kg u now \<in> set (awarded date_trunc_day now u db)
            \<longleftrightarrow> entry_weight e_first > entry_weight e_latest
                \<and> entry_weight e_first - entry_weight e_latest \<ge> 5)))
   \<and> weight_loss_5kg ''u'' now \<in> set (awarded date_trunc_day now ''u''
      \<lparr>meal_entries = [],
       weight_entries =
         [\<lparr>user_id = ''u'', created_at = 1 * 86400000000, entry_weight = 80\<rparr>,
          \<lparr>user_id = ''u'', created_at = 5 * 86400000000, entry_weight = 77\<rparr>,
          \<lparr>user_id = ''u'', created_at = 10 * 86400000000, entry_weight = 749 / 10\<rparr>],
       achievements = []\<rparr>)
   \<and> weight_loss_5kg ''u'' now \<notin> set (awarded date_trunc_day now ''u''
      \<lparr>meal_entries = [],
       weight_entries =
         [\<lparr>user_id = ''u'', created_at = 1 * 86400000000, entry_weight = 80\<rparr>,
          \<lparr>user_id = ''u'', created_at = 5 * 86400000000, entry_weight = 77\<rparr>,
          \<lparr>user_id = ''u'', created_at = 10 * 86400000000, entry_weight = 76\<rparr>],
       achievements = []\<rparr>)"
  by (intro conjI impI weight_loss_general weight_loss_example_qualifies
      weight_loss_example_fails)

theorem weight_loss_rule_witness:
  "filter (\<lambda>w. user_id w = ''u'')
     (weight_entries
       \<lparr>meal_entries = [],
        weight_entries =
          [\<lparr>user_id = ''u'', created_at = 1 * 86400000000, entry_weight = 80\<rparr>,
           \<lparr>user_id = ''v'', created_at = 2 * 86400000000, entry_weight = 90\<rparr>,
           \<lparr>user_id = ''u'', created_at = 10 * 86400000000, entry_weight = 749 / 10\<rparr>],
        achievements = []\<rparr>) \<noteq> []
   \<and> (\<exists>(e_first :: weight_entry) (e_latest :: weight_entry).
         entry_weight e_first = 80 \<and> entry_weight e_latest = 749 / 10
       \<and> (weight_loss_5kg ''u'' 0 \<in> set (awarded date_trunc_day_utc 0 ''u''
             \<lparr>meal_entries = [],
              weight_entries =
                [\<lparr>user_id = ''u'', created_at = 1 * 86400000000, entry_weight = 80\<rparr>,
                 \<lparr>user_id = ''v'', created_at = 2 * 86400000000, entry_weight = 90\<rparr>,
                 \<lparr>user_id = ''u'', created_at = 10 * 86400000000, entry_weight = 749 / 10\<rparr>],
              achievements = []\<rparr>)
            \<longleftrightarrow> entry_weight e_first > entry_weight e_latest
                \<and> entry_weight e_first - entry_weight e_latest \<ge> 5))"
proof -
  define db where "db = \<lparr>meal_entries = [],
        weight_entries =
          [\<lparr>user_id = ''u'', created_at = 1 * 86400000000, entry_weight = 80\<rparr>,
           \<lparr>user_id = ''v'', created_at = 2 * 86400000000, entry_weight = 90\<rparr>,
           \<lparr>user_id = ''u'', created_at = 10 * 86400000000, entry_weight = 749 / 10\<rparr>],
        achievements = []\<rparr>"
  have ne: "filter (\<lambda>w. user_id w = ''u'') (weight_entries db) \<noteq> []" by (simp add: db_def)
  have fw: "first_weight ''u'' db = Some 80" by (simp add: db_def first_weight_def)
  have lw: "latest_weight ''u'' db = Some (749 / 10)" by (simp add: db_def latest_weight_def)
  from weight_loss_rule
    [where u = "''u''" and db = db and now = 0 and date_trunc_day = date_trunc_day_utc,
      THEN conjunct1] ne
  have "\<exists>e_first e_latest.
         e_first \<in> set (filter (\<lambda>w. user_id w = ''u'') (weight_entries db))
       \<and> e_latest \<in> set (filter (\<lambda>w. user_id w = ''u'') (weight_entries db))
       \<and> (\<forall>x \<in> set (filter (\<lambda>w. user_id w = ''u'') (weight_entries db)).
             created_at e_first \<le> created_at x \<and> created_at x \<le> created_at e_latest)
       \<and> first_weight ''u'' db = Some (entry_weight e_first)
       \<and> latest_weight ''u'' db = Some (entry_weight e_latest)
       \<and> (weight_loss_5kg ''u'' 0 \<in> set (awarded date_trunc_day_utc 0 ''u'' db)
            \<longleftrightarrow> entry_weight e_first > entry_weight e_latest
                \<and> entry_weight e_first - entry_weight e_latest \<ge> 5)"
    by (rule mp)
  then obtain e_first where "\<exists>e_latest.
         e_first \<in> set (filter (\<lambda>w. user_id w = ''u'') (weight_entries db))
       \<and> e_latest \<in> set (filter (\<lambda>w. user_id w = ''u'') (weight_entries db))
       \<and> (\<forall>x \<in> set (filter (\<lambda>w. user_id w = ''u'') (weight_entries db)).
             created_at e_first \<le> created_at x \<and> created_at x \<le> created_at e_latest)
       \<and> first_weight ''u'' db = Some (entry_weight e_first)
       \<and> latest_weight ''u'' db = Some (entry_weight e_latest)
       \<and> (weight_loss_5kg ''u'' 0 \<in> set (awarded date_trunc_day_utc 0 ''u'' db)
            \<longleftrightarrow> entry_weight e_first > entry_weight e_latest
                \<and> entry_weight e_first - entry_weight e_latest \<ge> 5)" ..
  then obtain e_latest where c:
        "e_first \<in> set (filter (\<lambda>w. user_id w = ''u'') (weight_entries db))
       \<and> e_latest \<in> set (filter (\<lambda>w. user_id w = ''u'') (weight_entries db))
       \<and> (\<forall>x \<in> set (filter (\<lambda>w. user_id w = ''u'') (weight_entries db)).
             created_at e_first \<le> created_at x \<and> created_at x \<le> created_at e_latest)
       \<and> first_weight ''u'' db = Some (entry_weight e_first)
       \<and> latest_weight ''u'' db = Some (entry_weight e_latest)
       \<and> (weight_loss_5kg ''u'' 0 \<in> set (awarded date_trunc_day_utc 0 ''u'' db)
            \<longleftrightarrow> entry_weight e_first > entry_weight e_latest
                \<and> entry_weight e_first - entry_weight e_latest \<ge> 5)" ..
  note f = c [THEN conjunct2, THEN conjunct2, THEN conjunct2, THEN conjunct1]
  note l = c [THEN conjunct2, THEN conjunct2, THEN conjunct2, THEN conjunct2, THEN conjunct1]
  note q = c [THEN conjunct2, THEN conjunct2, THEN conjunct2, THEN conjunct2, THEN conjunct2]
  from f fw have w1: "entry_weight e_first = 80" by simp
  from l lw have w2: "entry_weight e_latest = 749 / 10" by simp
  from w1 w2 q have "entry_weight e_first = 80 \<and> entry_weight e_latest = 749 / 10
       \<and> (weight_loss_5kg ''u'' 0 \<in> set (awarded date_trunc_day_utc 0 ''u'' db)
            \<longleftrightarrow> entry_weight e_first > entry_weight e_latest
                \<and> entry_weight e_first - entry_weight e_latest \<ge> 5)"
    by (intro conjI)
  then have "\<exists>(e_first :: weight_entry) (e_latest :: weight_entry).
         entry_weight e_first = 80 \<and> entry_weight e_latest = 749 / 10
       \<and> (weight_loss_5kg ''u'' 0 \<in> set (awarded date_trunc_day_utc 0 ''u'' db)
            \<longleftrightarrow> entry_weight e_first > entry_weight e_latest
                \<and> entry_weight e_first - entry_weight e_latest \<ge> 5)"
    by (intro exI) assumption
  with ne have "filter (\<lambda>w. user_id w = ''u'') (weight_entries db) \<noteq> []
   \<and> (\<exists>(e_first :: weight_entry) (e_latest :: weight_entry).
         entry_weight e_first = 80 \<and> entry_weight e_latest = 749 / 10
       \<and> (weight_loss_5kg ''u'' 0 \<in> set (awarded date_trunc_day_utc 0 ''u'' db)
            \<longleftrightarrow> entry_weight e_first > entry_weight e_latest
                \<and> entry_weight e_first - entry_weight e_latest \<ge> 5))"
    by (intro conjI)
  then show ?thesis unfolding db_def .
qed


lemma total_days_card:
  "total_days date_trunc_day u db
   = card ((\<lambda>m. date_trunc_day (created_at m)) ` {m \<in> set (meal_entries db). user_id m = u})"
proof -
  have "total_days date_trunc_day u db
        = card (set (map (\<lambda>m. date_trunc_day (created_at m))
                         (filter (\<lambda>m. user_id m = u) (meal_entries db))))"
    by (simp only: total_days_def length_remdups_card_conv)
  then show ?thesis by simp
qed

lemma week_streak_example:
  "week_streak ''u'' now \<in> set (awarded date_trunc_day_utc now ''u''
      \<lparr>meal_entries =
         [\<lparr>user_id = ''u'', created_at = 1 * 86400000000 + 3600000000, meal_text = ''egg'',
            calories = 100, protein = 10, carbs = 1, fat = 5\<rparr>,
          \<lparr>user_id = ''u'', created_at = 3 * 86400000000, meal_text = ''egg'',
            calories = 100, protein = 10, carbs = 1, fat = 5\<rparr>,
          \<lparr>user_id = ''u'', created_at = 3 * 86400000000 + 7200000000, meal_text = ''tea'',
            calories = 0, protein = 0, carbs = 0, fat = 0\<rparr>,
          \<lparr>user_id = ''u'', created_at = 10 * 86400000000, meal_text = ''egg'',
            calories = 100, protein = 10, carbs = 1, fat = 5\<rparr>,
          \<lparr>user_id = ''u'', created_at = 20 * 86400000000, meal_text = ''egg'',
            calories = 100, protein = 10, carbs = 1, fat = 5\<rparr>,
          \<lparr>user_id = ''u'', created_at = 50 * 86400000000, meal_text = ''egg'',
            calories = 100, protein = 10, carbs = 1, fat = 5\<rparr>,
          \<lparr>user_id = ''u'', created_at = 51 * 86400000000, meal_text = ''egg'',
            calories = 100, protein = 10, carbs = 1, fat = 5\<rparr>,
          \<lparr>user_id = ''u'', created_at = 100 * 86400000000, meal_text = ''egg'',
            calories = 100, protein = 10, carbs = 1, fat = 5\<rparr>],
       weight_entries = [], achievements = []\<rparr>)"
  unfolding week_streak_awarded_iff
  by (simp add: total_days_def date_trunc_day_utc_def)

text \<open>
  Claim C6. One evaluation awards \<open>week_streak\<close> exactly when the owner's meals fall on 7
  distinct days; nothing asks the days to be consecutive. The example has meals on days
  1, 3, 10, 20, 50, 51 and 100, two of them on day 3.
\<close>

theorem week_streak_rule:
  "(week_streak u now \<in> set (awarded date_trunc_day now u db)
     \<longleftrightarrow> card ((\<lambda>m. date_trunc_day (created_at m))
                  ` {m \<in> set (meal_entries db). user_id m = u}) = 7)
   \<and> week_streak ''u'' now \<in> set (awarded date_trunc_day_utc now ''u''
      \<lparr>meal_entries =
         [\<lparr>user_id = ''u'', created_at = 1 * 86400000000 + 3600000000, meal_text = ''egg'',
            calories = 100, protein = 10, carbs = 1, fat = 5\<rparr>,
          \<lparr>user_id = ''u'', created_at = 3 * 86400000000, meal_text = ''egg'',
            calories = 100, protein = 10, carbs = 1, fat = 5\<rparr>,
          \<lparr>user_id = ''u'', created_at = 3 * 86400000000 + 7200000000, meal_text = ''tea'',
            calories = 0, protein = 0, carbs = 0, fat = 0\<rparr>,
          \<lparr>user_id = ''u'', created_at = 10 * 86400000000, meal_text = ''egg'',
            calories = 100, protein = 10, carbs = 1, fat = 5\<rparr>,
          \<lparr>user_id = ''u'', created_at = 20 * 86400000000, meal_text = ''egg'',
            calories = 100, protein = 10, carbs = 1, fat = 5\<rparr>,
          \<lparr>user_id = ''u'', created_at = 50 * 86400000000, meal_text = ''egg'',
            calories = 100, protein = 10, carbs = 1, fat = 5\<rparr>,
          \<lparr>user_id = ''u'', created_at = 51 * 86400000000, meal_text = ''egg'',
            calories = 100, protein = 10, carbs = 1, fat = 5\<rparr>,
          \<lparr>user_id = ''u'', created_at = 100 * 86400000000, meal_text = ''egg'',
            calories = 100, protein = 10, carbs = 1, fat = 5\<rparr>],
       weight_entries = [], achievements = []\<rparr>)"
  by (rule conjI [OF _ week_streak_example])
     (simp only: week_streak_awarded_iff total_days_card)


theorem week_streak_rule_witness:
  "week_streak ''u'' 0 \<notin> set (awarded date_trunc_day_utc 0 ''u''
      \<lparr>meal_entries =
         [\<lparr>user_id = ''u'', created_at = 1, meal_text = ''egg'',
            calories = 100, protein = 10, carbs = 1, fat = 5\<rparr>,
          \<lparr>user_id = ''u'', created_at = 2, meal_text = ''egg'',
            calories = 100, protein = 10, carbs = 1, fat = 5\<rparr>],
       weight_entries = [], achievements = []\<rparr>)"
proof -
  let ?db = "\<lparr>meal_entries =
         [\<lparr>user_id = ''u'', created_at = 1, meal_text = ''egg'',
            calories = 100, protein = 10, carbs = 1, fat = 5\<rparr>,
          \<lparr>user_id = ''u'', created_at = 2, meal_text = ''egg'',
            calories = 100, protein = 10, carbs = 1, fat = 5\<rparr>],
       weight_entries = [], achievements = []\<rparr>"
  have "card ((\<lambda>m. date_trunc_day_utc (created_at m))
                  ` {m \<in> set (meal_entries ?db). user_id m = ''u''})
        = total_days date_trunc_day_utc ''u'' ?db"
    by (rule total_days_card [symmetric])
  also have "\<dots> = 1" by (simp add: total_days_def date_trunc_day_utc_def)
  finally have "card ((\<lambda>m. date_trunc_day_utc (created_at m))
                  ` {m \<in> set (meal_entries ?db). user_id m = ''u''}) \<noteq> 7"
    by simp
  with week_streak_rule
    [where u = "''u''" and db = ?db and now = 0 and date_trunc_day = date_trunc_day_utc,
      THEN conjunct1]
  show ?thesis by blast
qed


text \<open>
  Claim C4. The claim fails on the code, in two ways. The table \<open>achievements\<close> has no
  policy for insertion and the trigger function runs as the inserting session, so for a
  signed-in user of the application the award made with the first meal is refused and takes
  the meal with it: no \<open>First Meal\<close> row is stored, and none can be for any later meal.
  For a session that bypasses row-level security the first meal awards the row, but the
  rule tests that the meal count is 1 and the trigger function also runs after an insertion
  into \<open>weight_entries\<close>: a weight logged while the owner has one meal awards \<open>First Meal\<close> a
  second time.
\<close>

theorem first_meal_not_awarded_once:
  "insert_row date_trunc_day_utc (Authenticated ''u'')
     (Insert_meal 0 ''u'' ''egg'' 100 10 1 5) empty_database = Inl Rls_violation
   \<and> achievement_count ''u'' ''First Meal''
     (run date_trunc_day_utc
        [(Authenticated ''u'', Insert_meal 0 ''u'' ''egg'' 100 10 1 5)] empty_database) = 0
   \<and> achievement_count ''u'' ''First Meal''
     (run date_trunc_day_utc
        [(Service_role, Insert_meal 0 ''u'' ''egg'' 100 10 1 5)] empty_database) = 1
   \<and> achievement_count ''u'' ''First Meal''
     (run date_trunc_day_utc
        [(Service_role, Insert_meal 0 ''u'' ''egg'' 100 10 1 5),
         (Service_role, Insert_weight 1 ''u'' 80)] empty_database) = 2"
  by (simp add: achievement_count_def empty_database_def check_and_award_achievements_def
      visible_def bypasses_rls_def may_insert_own_def auth_uid_def
      awarded_def total_meals_def total_days_def first_weight_def latest_weight_def
      weight_loss_condition_def first_meal_def date_trunc_day_utc_def)


text \<open>
  Claim C2, as stated, fails: nothing in the schema or in the trigger function keeps the
  rows of one owner and one kind unique. For a session that bypasses row-level security,
  each insertion made while the first weight exceeds the latest by 5 adds a
  \<open>Weight Loss Champion\<close> row, and so does running the function twice on one history.
\<close>

theorem achievements_duplicated:
  "achievement_count ''u'' ''Weight Loss Champion''
     (run date_trunc_day_utc
        [(Service_role, Insert_weight 0 ''u'' 80), (Service_role, Insert_weight 1 ''u'' 74),
         (Service_role, Insert_weight 2 ''u'' 73)]
        empty_database) = 2
   \<and> check_and_award_achievements Service_role date_trunc_day_utc 2 ''u''
         \<lparr>meal_entries = [],
          weight_entries = [\<lparr>user_id = ''u'', created_at = 0, entry_weight = 80\<rparr>,
                            \<lparr>user_id = ''u'', created_at = 1, entry_weight = 74\<rparr>],
          achievements = []\<rparr>
     = Inr \<lparr>meal_entries = [],
          weight_entries = [\<lparr>user_id = ''u'', created_at = 0, entry_weight = 80\<rparr>,
                            \<lparr>user_id = ''u'', created_at = 1, entry_weight = 74\<rparr>],
          achievements = [weight_loss_5kg ''u'' 2]\<rparr>
   \<and> check_and_award_achievements Service_role date_trunc_day_utc 3 ''u''
         \<lparr>meal_entries = [],
          weight_entries = [\<lparr>user_id = ''u'', created_at = 0, entry_weight = 80\<rparr>,
                            \<lparr>user_id = ''u'', created_at = 1, entry_weight = 74\<rparr>],
          achievements = [weight_loss_5kg ''u'' 2]\<rparr>
     = Inr \<lparr>meal_entries = [],
          weight_entries = [\<lparr>user_id = ''u'', created_at = 0, entry_weight = 80\<rparr>,
                            \<lparr>user_id = ''u'', created_at = 1, entry_weight = 74\<rparr>],
          achievements = [weight_loss_5kg ''u'' 2, weight_loss_5kg ''u'' 3]\<rparr>"
  by (simp add: achievement_count_def empty_database_def check_and_award_achievements_def
      visible_def bypasses_rls_def may_insert_own_def auth_uid_def
      awarded_def total_meals_def total_days_def first_weight_def latest_weight_def
      weight_loss_condition_def weight_loss_5kg_def date_trunc_day_utc_def)


lemma awarded_distinct_titles: "distinct (map title (awarded date_trunc_day now u db))"
  by (simp add: awarded_def first_meal_def ten_meals_def week_streak_def weight_loss_5kg_def)

lemma awarded_owner: "a \<in> set (awarded date_trunc_day now u db) \<Longrightarrow> user_id a = u"
  by (auto simp: awarded_def first_meal_def ten_meals_def week_streak_def weight_loss_5kg_def
      split: if_splits)

lemma weight_loss_rows_awarded:
  "length (filter (\<lambda>a. user_id a = u \<and> title a = ''Weight Loss Champion'')
            (awarded date_trunc_day now u db))
   = (if weight_loss_condition (first_weight u db) (latest_weight u db) then 1 else 0)"
  by (simp add: awarded_def first_meal_def ten_meals_def week_streak_def weight_loss_5kg_def)

text \<open>
  Claim C2, amended. Insertions made by sessions under row-level security, as those of the
  application are, never add a row to \<open>achievements\<close>, so they leave the rows there as they
  were and create no second row of one owner and one kind. For a session that bypasses
  row-level security, one evaluation inserts at most one row of each kind, all for the
  owner of the new row, after the rows already there, and leaves meals and weights alone;
  there is no uniqueness across evaluations: every evaluation at which the condition of
  \<open>weight_loss_5kg\<close> holds adds one more \<open>Weight Loss Champion\<close> row to those the owner has.
\<close>

theorem awards_by_role:
  "((\<forall>s \<in> set stmts. \<not> bypasses_rls (fst s))
      \<longrightarrow> achievements (run date_trunc_day stmts db) = achievements db)
   \<and> distinct (map title (awarded date_trunc_day now u db))
   \<and> (\<forall>a \<in> set (awarded date_trunc_day now u db). user_id a = u)
   \<and> check_and_award_achievements Service_role date_trunc_day now u db
       = Inr (db\<lparr>achievements := achievements db @ awarded date_trunc_day now u db\<rparr>)
   \<and> achievement_count u ''Weight Loss Champion''
         (db\<lparr>achievements := achievements db @ awarded date_trunc_day now u db\<rparr>)
       = achievement_count u ''Weight Loss Champion'' db
         + (if weight_loss_condition (first_weight u db) (latest_weight u db) then 1 else 0)"
proof (intro conjI ballI impI)
  show "achievements (run date_trunc_day stmts db) = achievements db"
    if "\<forall>s \<in> set stmts. \<not> bypasses_rls (fst s)"
    using that by (rule run_rls_achievements)
  show "distinct (map title (awarded date_trunc_day now u db))"
    by (rule awarded_distinct_titles)
  show "user_id a = u" if "a \<in> set (awarded date_trunc_day now u db)" for a
    using that by (rule awarded_owner)
  show "check_and_award_achievements Service_role date_trunc_day now u db
       = Inr (db\<lparr>achievements := achievements db @ awarded date_trunc_day now u db\<rparr>)"
    by (rule check_and_award_bypass)
  show "achievement_count u ''Weight Loss Champion''
         (db\<lparr>achievements := achievements db @ awarded date_trunc_day now u db\<rparr>)
       = achievement_count u ''Weight Loss Champion'' db
         + (if weight_loss_condition (first_weight u db) (latest_weight u db) then 1 else 0)"
    by (simp add: achievement_count_def weight_loss_rows_awarded del: One_nat_def)
qed

theorem awards_by_role_witness:
  "achievements (run date_trunc_day_utc
       [(Authenticated ''u'', Insert_weight 1 ''u'' 74),
        (Authenticated ''u'', Insert_meal 2 ''u'' ''egg'' 100 10 1 5)]
       \<lparr>meal_entries = [],
        weight_entries = [\<lparr>user_id = ''u'', created_at = 0, entry_weight = 80\<rparr>],
        achievements = []\<rparr>) = []
   \<and> weight_loss_5kg ''u'' 2 \<in> set (awarded date_trunc_day_utc 2 ''u''
       \<lparr>meal_entries = [],
        weight_entries = [\<lparr>user_id = ''u'', created_at = 0, entry_weight = 80\<rparr>,
                          \<lparr>user_id = ''u'', created_at = 1, entry_weight = 74\<rparr>],
        achievements = [weight_loss_5kg ''u'' 1]\<rparr>)
   \<and> user_id (weight_loss_5kg ''u'' 2) = ''u''
   \<and> achievement_count ''u'' ''Weight Loss Champion''
       (\<lparr>meal_entries = [],
          weight_entries = [\<lparr>user_id = ''u'', created_at = 0, entry_weight = 80\<rparr>,
                            \<lparr>user_id = ''u'', created_at = 1, entry_weight = 74\<rparr>],
          achievements = [weight_loss_5kg ''u'' 1]\<rparr>
        \<lparr>achievements := [weight_loss_5kg ''u'' 1] @ awarded date_trunc_day_utc 2 ''u''
          \<lparr>meal_entries = [],
           weight_entries = [\<lparr>user_id = ''u'', created_at = 0, entry_weight = 80\<rparr>,
                             \<lparr>user_id = ''u'', created_at = 1, entry_weight = 74\<rparr>],
           achievements = [weight_loss_5kg ''u'' 1]\<rparr>\<rparr>) = 2"
proof -
  define db0 where "db0 = \<lparr>meal_entries = [],
        weight_entries = [\<lparr>user_id = ''u'', created_at = 0, entry_weight = 80\<rparr>],
        achievements = []\<rparr>"
  define stmts where "stmts = [(Authenticated ''u'', Insert_weight 1 ''u'' 74),
        (Authenticated ''u'', Insert_meal 2 ''u'' ''egg'' 100 10 1 5)]"
  define db where "db = \<lparr>meal_entries = [],
        weight_entries = [\<lparr>user_id = ''u'', created_at = 0, entry_weight = 80\<rparr>,
                          \<lparr>user_id = ''u'', created_at = 1, entry_weight = 74\<rparr>],
        achievements = [weight_loss_5kg ''u'' 1]\<rparr>"
  note t0 = awards_by_role
    [where stmts = stmts and db = db0 and date_trunc_day = date_trunc_day_utc
       and u = "''u''" and now = 2]
  note t = awards_by_role
    [where u = "''u''" and db = db and now = 2 and date_trunc_day = date_trunc_day_utc
       and stmts = "[]"]
  have app: "\<forall>s \<in> set stmts. \<not> bypasses_rls (fst s)"
    by (simp add: stmts_def bypasses_rls_def)
  from t0 have "(\<forall>s \<in> set stmts. \<not> bypasses_rls (fst s))
      \<longrightarrow> achievements (run date_trunc_day_utc stmts db0) = achievements db0"
    by (elim conjE)
  then have "achievements (run date_trunc_day_utc stmts db0) = achievements db0"
    using app by (rule mp)
  then have a: "achievements (run date_trunc_day_utc stmts db0) = []"
    by (simp add: db0_def)
  have c: "weight_loss_condition (first_weight ''u'' db) (latest_weight ''u'' db)"
    by (simp add: db_def first_weight_def latest_weight_def weight_loss_condition_def)
  then have m: "weight_loss_5kg ''u'' 2 \<in> set (awarded date_trunc_day_utc 2 ''u'' db)"
    by (simp only: weight_loss_awarded_iff)
  from t have "\<forall>a \<in> set (awarded date_trunc_day_utc 2 ''u'' db). user_id a = ''u''"
    by (elim conjE)
  then have o: "user_id (weight_loss_5kg ''u'' 2) = ''u''" using m by (rule bspec)
  have before: "achievement_count ''u'' ''Weight Loss Champion'' db = 1"
    by (simp add: db_def achievement_count_def weight_loss_5kg_def)
  from t have "achievement_count ''u'' ''Weight Loss Champion''
         (db\<lparr>achievements := achievements db @ awarded date_trunc_day_utc 2 ''u'' db\<rparr>)
       = achievement_count ''u'' ''Weight Loss Champion'' db
         + (if weight_loss_condition (first_weight ''u'' db) (latest_weight ''u'' db)
            then 1 else 0)"
    by (elim conjE)
  with c before have "achievement_count ''u'' ''Weight Loss Champion''
         (db\<lparr>achievements := achievements db @ awarded date_trunc_day_utc 2 ''u'' db\<rparr>) = 2"
    by simp
  moreover have "achievements db = [weight_loss_5kg ''u'' 1]" by (simp add: db_def)
  ultimately have n: "achievement_count ''u'' ''Weight Loss Champion''
         (db\<lparr>achievements := [weight_loss_5kg ''u'' 1] @ awarded date_trunc_day_utc 2 ''u'' db\<rparr>) = 2"
    by simp
  from a m o n have "achievements (run date_trunc_day_utc stmts db0) = []
   \<and> weight_loss_5kg ''u'' 2 \<in> set (awarded date_trunc_day_utc 2 ''u'' db)
   \<and> user_id (weight_loss_5kg ''u'' 2) = ''u''
   \<and> achievement_count ''u'' ''Weight Loss Champion''
         (db\<lparr>achievements := [weight_loss_5kg ''u'' 1] @ awarded date_trunc_day_utc 2 ''u'' db\<rparr>) = 2"
    by (intro conjI)
  then show ?thesis unfolding db_def db0_def stmts_def .
qed

end
